theory Spec2Isabelle
  imports Main
begin

section \<open>JavaScript values and strings\<close>

text \<open>
  The background script of Cookie-AutoDelete (\<^verbatim>\<open>src/background.ts\<close>) is modelled handler by
  handler. A setting's value is a boolean, a number or a string; conditions of the source
  test its truthiness.
\<close>

datatype SettingValue = VBool bool | VNum int | VStr string

fun truthy :: "SettingValue \<Rightarrow> bool" where
  "truthy (VBool b) = b"
| "truthy (VNum n) = (n \<noteq> 0)"
| "truthy (VStr s) = (s \<noteq> [])"

datatype JsError = TypeError | SyntaxError

datatype json =
    JNull
  | JBool bool
  | JNum int
  | JStr string
  | JArr "json list"
  | JObj "(string \<times> json) list"

text \<open>\<^verbatim>\<open>s.startsWith(p)\<close>, \<^verbatim>\<open>s.endsWith(p)\<close>, \<^verbatim>\<open>s.slice(n)\<close> for a non-negative \<open>n\<close>,
  \<^verbatim>\<open>s.split(c)\<close> for a one-character separator (the result is never empty), and
  \<^verbatim>\<open>s.toLowerCase()\<close> on ASCII letters.\<close>

definition startsWith :: "string \<Rightarrow> string \<Rightarrow> bool" where
  "startsWith s p = (take (length p) s = p)"

definition endsWith :: "string \<Rightarrow> string \<Rightarrow> bool" where
  "endsWith s p = (length p \<le> length s \<and> drop (length s - length p) s = p)"

definition slice :: "nat \<Rightarrow> string \<Rightarrow> string" where
  "slice n s = drop n s"

fun splitOn :: "char \<Rightarrow> string \<Rightarrow> string list" where
  "splitOn c [] = [[]]"
| "splitOn c (x # xs) =
     (if x = c then [] # splitOn c xs
      else (case splitOn c xs of [] \<Rightarrow> [[x]] | f # fs \<Rightarrow> (x # f) # fs))"

definition lowerChar :: "char \<Rightarrow> char" where
  "lowerChar c =
     (case map_of (zip ''ABCDEFGHIJKLMNOPQRSTUVWXYZ'' ''abcdefghijklmnopqrstuvwxyz'') c of
        None \<Rightarrow> c
      | Some l \<Rightarrow> l)"

definition toLowerCase :: "string \<Rightarrow> string" where
  "toLowerCase s = map lowerChar s"

text \<open>\<^verbatim>\<open>xs.findIndex(P)\<close>; \<open>None\<close> is its \<open>-1\<close>. \<^verbatim>\<open>xs.splice(i, 1)\<close> removes the element at
  index \<open>i\<close>.\<close>

fun findIndex :: "('a \<Rightarrow> bool) \<Rightarrow> 'a list \<Rightarrow> nat option" where
  "findIndex P [] = None"
| "findIndex P (x # xs) =
     (if P x then Some 0 else (case findIndex P xs of None \<Rightarrow> None | Some i \<Rightarrow> Some (Suc i)))"

definition splice1 :: "nat \<Rightarrow> 'a list \<Rightarrow> 'a list" where
  "splice1 i xs = take i xs @ drop (Suc i) xs"

text \<open>A JavaScript \<^verbatim>\<open>Set\<close> of strings, in insertion order.\<close>

definition Set_add :: "string \<Rightarrow> string list \<Rightarrow> string list" where
  "Set_add x xs = (if x \<in> set xs then xs else xs @ [x])"

definition Set_new :: "string list \<Rightarrow> string list" where
  "Set_new xs = foldl (\<lambda>s x. Set_add x s) [] xs"

section \<open>The data of the extension\<close>

type_synonym SiteDataType = string
type_synonym ListType = string

record Setting =
  settingName :: string
  "value" :: SettingValue

text \<open>\<^verbatim>\<open>{ [setting: string]: Setting }\<close>: a key that is absent reads as \<^verbatim>\<open>undefined\<close>.\<close>

type_synonym Settings = "string \<Rightarrow> Setting option"

record Expression =
  expression :: string
  listType :: ListType
  storeId :: string
  cleanLocalStorage :: "bool option"
  cleanSiteData :: "SiteDataType list option"

text \<open>The part of the redux state the script reads: the settings, and the expression lists
  by container, in the order \<^verbatim>\<open>Object.values\<close> and \<^verbatim>\<open>Object.keys\<close> enumerate them.\<close>

record State =
  settings :: Settings
  lists' :: "(string \<times> Expression list) list"

record Port =
  portId :: nat
  name :: "string option"

record Cookie =
  domain :: string

record ChangeInfo =
  removed :: bool
  cookie :: Cookie
  cause :: string

record Tab =
  url :: "string option"

record InstalledDetails =
  reason :: string
  previousVersion :: "string option"

record Manifest =
  manifestName :: string
  version :: string

section \<open>Actions, effects and the external collaborators\<close>

datatype Action =
    ON_STARTUP
  | ADD_CACHE string string
  | UPDATE_SETTING string SettingValue
  | UPDATE_EXPRESSION Expression
  | ADD_EXPRESSION string "SiteDataType list" ListType string
  | RESET_COOKIE_DELETED_COUNTER
  | cacheCookieStoreIdNames
  | validateSettings
  | cookieCleanup bool SettingValue

datatype BrowserEvent =
    tabs_onUpdated
  | tabs_onRemoved
  | cookies_onChanged
  | runtime_onConnect
  | runtime_onStartup
  | runtime_onInstalled

datatype Listener =
    TabEvents_onDomainChange
  | TabEvents_onTabDiscarded
  | TabEvents_onTabUpdate
  | TabEvents_onDomainChangeRemove
  | TabEvents_cleanFromTabEvents
  | CookieEvents_onCookieChanged
  | the_handleConnect
  | the_startupListener
  | the_installedListener

datatype Subscriber = the_onSettingsChange | the_saveToStorage

text \<open>What a handler does to the world outside it, in the order it does it.\<close>

datatype Effect =
    Dispatch Action
  | browserAction_setTitle string
  | storage_local_get
  | createStore_with json
  | store_subscribe Subscriber
  | StoreUser_init
  | setGlobalIcon SettingValue
  | checkIfProtected
  | addListener BrowserEvent Listener
  | ContextMenuEvents_menuInit
  | ContextMenuEvents_menuClear
  | ContextMenuEvents_updateMenuItemCheckbox_ACTIVE_MODE SettingValue
  | browsingData_remove_since0 string
  | alarms_clear string
  | runtime_openOptionsPage
  | runtime_getBrowserInfo
  | runtime_getPlatformInfo
  | tabs_query_normal
  | contextualIdentities_query
  | cadLog string SettingValue

text \<open>
  The functions and constants that \<^verbatim>\<open>background.ts\<close> imports from the rest of the extension
  and from the host are parameters of the model: nothing is assumed about them.
  \<open>store_dispatch a st\<close> is the state of the store after \<^verbatim>\<open>store.dispatch(a)\<close> in state \<open>st\<close>.
\<close>

record Libs =
  SITEDATATYPES :: "SiteDataType list"
  siteDataToBrowser :: "SiteDataType \<Rightarrow> string"
  LOCALSTORAGE :: SiteDataType
  GREY :: ListType
  WHITE :: ListType
  Firefox :: string
  convertVersionToNumber :: "string option \<Rightarrow> int"
  extractMainDomain :: "string \<Rightarrow> string"
  getSetting :: "State \<Rightarrow> string \<Rightarrow> SettingValue"
  store_dispatch :: "Action \<Rightarrow> State \<Rightarrow> State"
  createStore :: "json \<Rightarrow> State"
  JSON_parse :: "string \<Rightarrow> JsError + json"
  JSON_stringify :: "State \<Rightarrow> string"

text \<open>A handler threads the state of the store and the trace of its effects.\<close>

type_synonym Run = "State \<times> Effect list"

definition dispatch :: "Libs \<Rightarrow> Action \<Rightarrow> Run \<Rightarrow> Run" where
  "dispatch L a r = (store_dispatch L a (fst r), snd r @ [Dispatch a])"

definition emit :: "Effect \<Rightarrow> Run \<Rightarrow> Run" where
  "emit e r = (fst r, snd r @ [e])"

text \<open>Projections of a trace.\<close>

definition dispatched :: "Effect list \<Rightarrow> Action list" where
  "dispatched tr = concat (map (\<lambda>e. case e of Dispatch a \<Rightarrow> [a] | _ \<Rightarrow> []) tr)"

definition listenersAdded :: "Effect list \<Rightarrow> (BrowserEvent \<times> Listener) list" where
  "listenersAdded tr = concat (map (\<lambda>e. case e of addListener ev l \<Rightarrow> [(ev, l)] | _ \<Rightarrow> []) tr)"

definition storesCreated :: "Effect list \<Rightarrow> json list" where
  "storesCreated tr = concat (map (\<lambda>e. case e of createStore_with j \<Rightarrow> [j] | _ \<Rightarrow> []) tr)"

definition dataRemoved :: "Effect list \<Rightarrow> string list" where
  "dataRemoved tr = concat (map (\<lambda>e. case e of browsingData_remove_since0 k \<Rightarrow> [k] | _ \<Rightarrow> []) tr)"

section \<open>saveToStorage\<close>

text \<open>
  \<^verbatim>\<open>delaySave\<close>, the callbacks \<^verbatim>\<open>setTimeout\<close> holds, the state of the store and the
  \<^verbatim>\<open>state\<close> entry of \<^verbatim>\<open>browser.storage.local\<close>. The delay of 1000 ms is abstracted to the
  event that a pending timer fires.
\<close>

record SaveState =
  delaySave :: bool
  timers :: nat
  storeState :: State
  stored :: "string option"

definition saveToStorage :: "SaveState \<Rightarrow> SaveState" where
  "saveToStorage s =
     (if \<not> delaySave s then s\<lparr>delaySave := True, timers := Suc (timers s)\<rparr> else s)"

definition flush :: "Libs \<Rightarrow> SaveState \<Rightarrow> SaveState" where
  "flush L s = s\<lparr>delaySave := False, stored := Some (JSON_stringify L (storeState s))\<rparr>"

datatype SaveEvent = StateChanges State | SaveCalled | TimerFires

fun saveStep :: "Libs \<Rightarrow> SaveEvent \<Rightarrow> SaveState \<Rightarrow> SaveState option" where
  "saveStep L (StateChanges st) s = Some (s\<lparr>storeState := st\<rparr>)"
| "saveStep L SaveCalled s = Some (saveToStorage s)"
| "saveStep L TimerFires s =
     (if timers s = 0 then None else Some (flush L (s\<lparr>timers := timers s - 1\<rparr>)))"

fun saveRun :: "Libs \<Rightarrow> SaveEvent list \<Rightarrow> SaveState \<Rightarrow> SaveState option" where
  "saveRun L [] s = Some s"
| "saveRun L (ev # evs) s = (case saveStep L ev s of None \<Rightarrow> None | Some s' \<Rightarrow> saveRun L evs s')"

definition saveInit :: "State \<Rightarrow> string option \<Rightarrow> SaveState" where
  "saveInit st d = \<lparr>delaySave = False, timers = 0, storeState = st, stored = d\<rparr>"

section \<open>onSettingsChange\<close>

text \<open>
  Reading \<^verbatim>\<open>.value\<close> of a setting that is absent throws a \<^verbatim>\<open>TypeError\<close>, which rejects the
  promise of the handler: a step is the effects done so far and the error, if any.
\<close>

type_synonym Step = "Effect list \<times> JsError option"

definition ok :: "Effect list \<Rightarrow> Step" where
  "ok tr = (tr, None)"

definition throwTypeError :: Step where
  "throwTypeError = ([], Some TypeError)"

definition andThen :: "Step \<Rightarrow> Step \<Rightarrow> Step" where
  "andThen a b = (case snd a of Some e \<Rightarrow> a | None \<Rightarrow> (fst a @ fst b, snd b))"

definition browsingDataCleanup :: "Libs \<Rightarrow> SiteDataType \<Rightarrow> SettingValue \<Rightarrow> Effect list" where
  "browsingDataCleanup L siteData debug =
     [browsingData_remove_since0 (siteDataToBrowser L siteData),
      cadLog (siteData @ '' setting has been activated.  All previous '' @ siteData
              @ '' has been cleared to give it a clean slate.'') debug]"

definition containerModeCheck :: "Settings \<Rightarrow> Settings \<Rightarrow> Step" where
  "containerModeCheck previousSettings currentSettings =
     (case previousSettings ''contextualIdentities'' of
        None \<Rightarrow> throwTypeError
      | Some p \<Rightarrow>
          if truthy (value p) then ok []
          else (case currentSettings ''contextualIdentities'' of
                  None \<Rightarrow> throwTypeError
                | Some c \<Rightarrow> if truthy (value c) then ok [Dispatch cacheCookieStoreIdNames] else ok []))"

fun browsingDataCheck :: "Libs \<Rightarrow> Settings \<Rightarrow> Settings \<Rightarrow> SiteDataType list \<Rightarrow> Step" where
  "browsingDataCheck L previousSettings currentSettings [] = ok []"
| "browsingDataCheck L previousSettings currentSettings (siteData # rest) =
     (let sd = siteDataToBrowser L siteData @ ''Cleanup'' in
      if (case previousSettings sd of None \<Rightarrow> True | Some p \<Rightarrow> \<not> truthy (value p)) then
        (case currentSettings sd of
           None \<Rightarrow> throwTypeError
         | Some c \<Rightarrow>
             if truthy (value c) then
               (if siteData = LOCALSTORAGE L \<and>
                   (case previousSettings ''localstorageCleanup'' of
                      None \<Rightarrow> False
                    | Some d \<Rightarrow> truthy (value d))
                then browsingDataCheck L previousSettings currentSettings rest
                else (case currentSettings ''debugMode'' of
                        None \<Rightarrow> throwTypeError
                      | Some dbg \<Rightarrow>
                          andThen (ok (browsingDataCleanup L siteData (value dbg)))
                            (browsingDataCheck L previousSettings currentSettings rest)))
             else browsingDataCheck L previousSettings currentSettings rest)
      else browsingDataCheck L previousSettings currentSettings rest)"

definition activeModeCheck :: "Settings \<Rightarrow> Settings \<Rightarrow> Step" where
  "activeModeCheck previousSettings currentSettings =
     (case previousSettings ''activeMode'' of
        None \<Rightarrow> throwTypeError
      | Some p \<Rightarrow>
          andThen
            (if truthy (value p) then
               (case currentSettings ''activeMode'' of
                  None \<Rightarrow> throwTypeError
                | Some c \<Rightarrow> if \<not> truthy (value c) then ok [alarms_clear ''activeModeAlarm''] else ok [])
             else ok [])
            (case currentSettings ''activeMode'' of
               None \<Rightarrow> throwTypeError
             | Some c \<Rightarrow>
                 if value p \<noteq> value c then
                   ok [setGlobalIcon (value c),
                       ContextMenuEvents_updateMenuItemCheckbox_ACTIVE_MODE (value c)]
                 else ok []))"

definition contextMenuCheck :: "Settings \<Rightarrow> Settings \<Rightarrow> Step" where
  "contextMenuCheck previousSettings currentSettings =
     (case previousSettings ''contextMenus'' of
        None \<Rightarrow> throwTypeError
      | Some p \<Rightarrow>
          (case currentSettings ''contextMenus'' of
             None \<Rightarrow> throwTypeError
           | Some c \<Rightarrow>
               if value p \<noteq> value c then
                 (if truthy (value c) then ok [ContextMenuEvents_menuInit]
                  else ok [ContextMenuEvents_menuClear])
               else ok []))"

definition deprecatedSettingsCheck :: "Settings \<Rightarrow> Settings \<Rightarrow> Step" where
  "deprecatedSettingsCheck previousSettings currentSettings =
     (case previousSettings ''localStorageCleanup'' of
        None \<Rightarrow> throwTypeError
      | Some p \<Rightarrow>
          (case currentSettings ''localStorageCleanup'' of
             None \<Rightarrow> throwTypeError
           | Some c \<Rightarrow>
               if value p \<noteq> value c then
                 ok [Dispatch (UPDATE_SETTING ''localstorageCleanup'' (value c))]
               else ok []))"

text \<open>
  \<open>onSettingsChange L previousSettings st\<close>: the first argument is the module variable
  \<^verbatim>\<open>currentSettings\<close> when the subscriber is called and \<open>st\<close> is \<^verbatim>\<open>store.getState()\<close>. The
  result is the new value of \<^verbatim>\<open>currentSettings\<close> and the step. The call is taken as one
  uninterrupted run: no other handler assigns \<^verbatim>\<open>currentSettings\<close> while it runs.
\<close>

definition onSettingsChange :: "Libs \<Rightarrow> Settings \<Rightarrow> State \<Rightarrow> Settings \<times> Step" where
  "onSettingsChange L previousSettings st =
     (let currentSettings = settings st in
      (currentSettings,
       andThen (containerModeCheck previousSettings currentSettings)
      (andThen (browsingDataCheck L previousSettings currentSettings (SITEDATATYPES L))
      (andThen (activeModeCheck previousSettings currentSettings)
      (andThen (contextMenuCheck previousSettings currentSettings)
      (andThen (deprecatedSettingsCheck previousSettings currentSettings)
               (ok [checkIfProtected, Dispatch validateSettings])))))))"

section \<open>The popup ports\<close>

text \<open>
  A port's \<^verbatim>\<open>name\<close> may be missing. \<open>hasName\<close> is the truthiness of \<^verbatim>\<open>p.name\<close> (neither
  undefined nor the empty string) and \<open>nameOf\<close> the string itself.
\<close>

definition hasName :: "Port \<Rightarrow> bool" where
  "hasName p = (case name p of None \<Rightarrow> False | Some n \<Rightarrow> n \<noteq> [])"

definition nameOf :: "Port \<Rightarrow> string" where
  "nameOf p = (case name p of None \<Rightarrow> [] | Some n \<Rightarrow> n)"

text \<open>
  The array \<^verbatim>\<open>cookiePopupPorts\<close>; whether \<^verbatim>\<open>onCookiePopupUpdates\<close> is a listener of
  \<^verbatim>\<open>browser.cookies.onChanged\<close>; the ports that were given their \<^verbatim>\<open>onMessage\<close> and
  \<^verbatim>\<open>onDisconnect\<close> listeners; and the ports \<^verbatim>\<open>postMessage({ cookieUpdated: true })\<close> was called
  on, in order.
\<close>

record PopupState =
  cookiePopupPorts :: "Port list"
  popupListening :: bool
  portListeners :: "Port list"
  posted :: "Port list"

text \<open>Whether the callback of \<^verbatim>\<open>forEach\<close> in \<^verbatim>\<open>onCookiePopupUpdates\<close> reaches
  \<^verbatim>\<open>p.postMessage\<close>. \<^verbatim>\<open>split\<close> never answers an empty array, so \<^verbatim>\<open>pn[0]\<close> is a string.\<close>

definition notifies :: "Libs \<Rightarrow> ChangeInfo \<Rightarrow> Port \<Rightarrow> bool" where
  "notifies L changeInfo p =
     (let cDomain = extractMainDomain L (domain (cookie changeInfo)) in
      if \<not> hasName p then False
      else if \<not> startsWith (nameOf p) ''popupCAD_'' then False
      else (case splitOn CHR '','' (slice 9 (nameOf p)) of
              [] \<Rightarrow> False
            | pn0 # _ \<Rightarrow>
                endsWith pn0 (domain (cookie changeInfo)) \<or> endsWith pn0 cDomain))"

definition onCookiePopupUpdates :: "Libs \<Rightarrow> ChangeInfo \<Rightarrow> PopupState \<Rightarrow> PopupState" where
  "onCookiePopupUpdates L changeInfo s =
     s\<lparr>posted :=
         foldl (\<lambda>sent p. if notifies L changeInfo p then sent @ [p] else sent)
           (posted s) (cookiePopupPorts s)\<rparr>"

definition onDisconnect :: "Port \<Rightarrow> PopupState \<Rightarrow> PopupState" where
  "onDisconnect dp s =
     (let s1 = (if int (length (cookiePopupPorts s)) - 1 = 0 \<and> popupListening s
                then s\<lparr>popupListening := False\<rparr> else s)
      in if \<not> hasName dp then s1
         else (case findIndex (\<lambda>pp. if \<not> hasName pp then False else name pp = name dp)
                      (cookiePopupPorts s1) of
                 None \<Rightarrow> s1
               | Some i \<Rightarrow> s1\<lparr>cookiePopupPorts := splice1 i (cookiePopupPorts s1)\<rparr>))"

definition handleConnect :: "Port \<Rightarrow> PopupState \<Rightarrow> PopupState" where
  "handleConnect p s =
     (if \<not> hasName p \<or> \<not> startsWith (nameOf p) ''popupCAD_'' then s
      else s\<lparr>popupListening := (if \<not> popupListening s then True else popupListening s),
             portListeners := portListeners s @ [p],
             posted := posted s @ [p],
             cookiePopupPorts := cookiePopupPorts s @ [p]\<rparr>)"

text \<open>What the browser can do to the ports, in any order: a port connects, a port
  disconnects, a cookie changes (which reaches \<^verbatim>\<open>onCookiePopupUpdates\<close> while it is a
  listener).\<close>

datatype PopupEvent = Connects Port | Disconnects Port | CookieChanges ChangeInfo

fun popupStep :: "Libs \<Rightarrow> PopupState \<Rightarrow> PopupEvent \<Rightarrow> PopupState" where
  "popupStep L s (Connects p) = handleConnect p s"
| "popupStep L s (Disconnects dp) = onDisconnect dp s"
| "popupStep L s (CookieChanges changeInfo) =
     (if popupListening s then onCookiePopupUpdates L changeInfo s else s)"

definition popupRun :: "Libs \<Rightarrow> PopupEvent list \<Rightarrow> PopupState \<Rightarrow> PopupState" where
  "popupRun L evs s = foldl (popupStep L) s evs"

definition popupInit :: PopupState where
  "popupInit = \<lparr>cookiePopupPorts = [], popupListening = False, portListeners = [], posted = []\<rparr>"

section \<open>onStartUp and the top level of the module\<close>

text \<open>What the host answers while \<^verbatim>\<open>onStartUp\<close> runs: the manifest, the \<^verbatim>\<open>state\<close> entry of
  \<^verbatim>\<open>browser.storage.local\<close> (written by \<^verbatim>\<open>saveToStorage\<close> as a string), the browser, its
  version, the platform, and whether \<^verbatim>\<open>browser.contextMenus\<close> exists.\<close>

record StartUpHost =
  manifest :: Manifest
  storage_state :: "string option"
  browserDetect :: string
  browserInfo_version :: string
  platformInfo_os :: string
  contextMenus :: bool

text \<open>The body of the \<^verbatim>\<open>try\<close> block, and the block with its \<^verbatim>\<open>catch\<close>.\<close>

definition parseStored :: "Libs \<Rightarrow> string option \<Rightarrow> JsError + json" where
  "parseStored L state =
     (case state of
        None \<Rightarrow> Inr (JObj [])
      | Some s \<Rightarrow> if s \<noteq> [] then JSON_parse L s else Inr (JObj []))"

definition stateFromStorage :: "Libs \<Rightarrow> string option \<Rightarrow> json" where
  "stateFromStorage L state = (case parseStored L state of Inl err \<Rightarrow> JObj [] | Inr j \<Rightarrow> j)"

text \<open>\<^verbatim>\<open>onStartUp\<close> up to its first \<^verbatim>\<open>await\<close>, and from there on. The second part returns
  the value assigned to \<^verbatim>\<open>currentSettings\<close>, the store and the trace.\<close>

definition onStartUp_begin :: "StartUpHost \<Rightarrow> Effect list" where
  "onStartUp_begin h =
     [browserAction_setTitle
        (manifestName (manifest h) @ '' '' @ version (manifest h) @ '' [STARTING UP...] (0)''),
      storage_local_get]"

definition onStartUp_resume :: "Libs \<Rightarrow> StartUpHost \<Rightarrow> Settings \<times> Run" where
  "onStartUp_resume L h =
     (let fromStorage = stateFromStorage L (storage_state h);
          r0 = (createStore L fromStorage, [createStore_with fromStorage]);
          r1 = dispatch L ON_STARTUP r0;
          r2 = (if browserDetect h = Firefox L then
                  dispatch L
                    (ADD_CACHE ''browserVersion''
                       (case splitOn CHR ''.'' (browserInfo_version h) of [] \<Rightarrow> [] | v # _ \<Rightarrow> v))
                    (emit runtime_getBrowserInfo r1)
                else r1);
          r3 = dispatch L (ADD_CACHE ''browserDetect'' (browserDetect h)) r2;
          r4 = dispatch L (ADD_CACHE ''platformOs'' (platformInfo_os h))
                 (emit runtime_getPlatformInfo r3);
          r5 = (if truthy (getSetting L (fst r4) ''contextualIdentities'')
                then dispatch L cacheCookieStoreIdNames r4 else r4);
          currentSettings = settings (fst r5);
          r6 = emit StoreUser_init
                 (emit (store_subscribe the_saveToStorage)
                    (emit (store_subscribe the_onSettingsChange) r5));
          r7 = dispatch L validateSettings r6;
          r8 = emit checkIfProtected (emit (setGlobalIcon (getSetting L (fst r7) ''activeMode'')) r7);
          r9 = foldl (\<lambda>r e. emit e r) r8
                 [addListener tabs_onUpdated TabEvents_onDomainChange,
                  addListener tabs_onUpdated TabEvents_onTabDiscarded,
                  addListener tabs_onUpdated TabEvents_onTabUpdate,
                  addListener tabs_onRemoved TabEvents_onDomainChangeRemove,
                  addListener tabs_onRemoved TabEvents_cleanFromTabEvents,
                  addListener cookies_onChanged CookieEvents_onCookieChanged];
          r10 = (if contextMenus h then emit ContextMenuEvents_menuInit r9 else r9)
      in (currentSettings,
          emit (browserAction_setTitle
                  (manifestName (manifest h) @ '' '' @ version (manifest h) @ '' [READY] (0)''))
            r10))"

text \<open>The statements of the module in the order they run: \<^verbatim>\<open>onConnect\<close> gets its listener,
  \<^verbatim>\<open>onStartUp()\<close> runs to its first \<^verbatim>\<open>await\<close>, the listeners of \<^verbatim>\<open>runtime.onStartup\<close> and
  \<^verbatim>\<open>runtime.onInstalled\<close> are added, and \<^verbatim>\<open>onStartUp\<close> resumes and is logged.\<close>

definition background :: "Libs \<Rightarrow> StartUpHost \<Rightarrow> Effect list" where
  "background L h =
     [addListener runtime_onConnect the_handleConnect]
     @ onStartUp_begin h
     @ [addListener runtime_onStartup the_startupListener,
        addListener runtime_onInstalled the_installedListener]
     @ snd (snd (onStartUp_resume L h))
     @ [cadLog ''background.onStartUp has been executed''
          (getSetting L (fst (snd (onStartUp_resume L h))) ''debugMode'')]"

section \<open>The listeners of runtime.onStartup and runtime.onInstalled\<close>

text \<open>
  \<^verbatim>\<open>awaitStore\<close> tests the variable \<^verbatim>\<open>store\<close> every 250 ms until it is set. \<open>store n\<close> is
  what the \<open>n\<close>-th test finds: \<open>None\<close> while the variable is undefined, the state of the
  store afterwards. The loop has no bound of its own, so the model runs it on fuel, and
  \<open>None\<close> is a loop that has not come back when the fuel is spent. Once the loop is
  back, a listener is taken as one uninterrupted run: between its \<^verbatim>\<open>await\<close>s the store
  changes only by the listener's own dispatches.
\<close>

fun awaitStore :: "nat \<Rightarrow> (nat \<Rightarrow> State option) \<Rightarrow> nat \<Rightarrow> State option" where
  "awaitStore 0 store n = None"
| "awaitStore (Suc fuel) store n =
     (case store n of None \<Rightarrow> awaitStore fuel store (Suc n) | Some st \<Rightarrow> Some st)"

definition greyCleanup :: "Libs \<Rightarrow> Run \<Rightarrow> Run" where
  "greyCleanup L r =
     (if truthy (getSetting L (fst r) ''activeMode'') then
        dispatch L (cookieCleanup True (getSetting L (fst r) ''cleanCookiesFromOpenTabsOnStartup''))
          (emit (cadLog ''background.greyCleanup:  dispatching browser restart greyCleanup.''
                   (getSetting L (fst r) ''debugMode'')) r)
      else r)"

text \<open>The listener of \<^verbatim>\<open>runtime.onStartup\<close>; \<open>startupTabs\<close> is the answer of
  \<^verbatim>\<open>browser.tabs.query({ windowType: 'normal' })\<close>.\<close>

definition startupListener :: "Libs \<Rightarrow> nat \<Rightarrow> (nat \<Rightarrow> State option) \<Rightarrow> Tab list \<Rightarrow> Run option" where
  "startupListener L fuel store startupTabs =
     (case awaitStore fuel store 0 of
        None \<Rightarrow> None
      | Some st \<Rightarrow>
          Some
            (let r0 = (st, []);
                 r1 =
                   (if getSetting L (fst r0) ''activeMode'' = VBool True then
                      (if getSetting L (fst r0) ''enableGreyListCleanup'' = VBool True then
                         (let r = emit tabs_query_normal r0;
                              isFFSessionRestore =
                                foldl (\<lambda>b tab. if url tab = Some ''about:sessionrestore'' then True else b)
                                  False startupTabs
                          in if \<not> isFFSessionRestore then greyCleanup L r
                             else emit
                                    (cadLog ''Found a tab with [ about:sessionrestore ] in Firefox. Skipping Grey startup cleanup this time.''
                                       (VBool (getSetting L (fst r) ''debugMode'' = VBool True)))
                                    r)
                       else emit
                              (cadLog ''GreyList Cleanup setting is disabled.  Not cleaning cookies on startup.''
                                 (VBool (getSetting L (fst r0) ''debugMode'' = VBool True)))
                              r0)
                    else r0)
             in emit checkIfProtected r1))"

text \<open>The migration steps of an update from a version before 3.5.0.\<close>

definition migrateSetting :: "Libs \<Rightarrow> Run \<Rightarrow> Run" where
  "migrateSetting L r =
     (case settings (fst r) ''localstorageCleanup'' of
        None \<Rightarrow> r
      | Some s \<Rightarrow> dispatch L (UPDATE_SETTING ''localStorageCleanup'' (value s)) r)"

definition migrateExpressions :: "Libs \<Rightarrow> Run \<Rightarrow> Run" where
  "migrateExpressions L r =
     foldl (\<lambda>r1 list.
              foldl (\<lambda>r2 exp.
                       if cleanLocalStorage exp = Some True \<and> cleanSiteData exp = None then
                         dispatch L
                           (UPDATE_EXPRESSION (exp\<lparr>cleanSiteData := Some [LOCALSTORAGE L]\<rparr>)) r2
                       else r2)
                r1 list)
       r (map snd (lists' (fst r)))"

definition migrateDefaults :: "Libs \<Rightarrow> string list \<Rightarrow> Run \<Rightarrow> ListType \<Rightarrow> Run" where
  "migrateDefaults L contextualIdentitiesObjects r lt =
     (if truthy (getSetting L (fst r) (toLowerCase lt @ ''CleanLocalstorage'')) then
        (let containers = Set_add ''default'' (Set_new (map fst (lists' (fst r))));
             queried = truthy (getSetting L (fst r) ''contextualIdentities'');
             containers' =
               (if queried
                then foldl (\<lambda>cs c. Set_add c cs) containers contextualIdentitiesObjects
                else containers);
             r' = (if queried then emit contextualIdentities_query r else r)
         in foldl (\<lambda>r2 list.
                     dispatch L
                       (ADD_EXPRESSION (''_Default:'' @ lt) [LOCALSTORAGE L] lt list) r2)
              r' containers')
      else r)"

text \<open>The listener of \<^verbatim>\<open>runtime.onInstalled\<close>; \<open>contextualIdentitiesObjects\<close> are the
  \<^verbatim>\<open>cookieStoreId\<close>s that \<^verbatim>\<open>browser.contextualIdentities.query({})\<close> answers.\<close>

definition installedListener ::
  "Libs \<Rightarrow> nat \<Rightarrow> (nat \<Rightarrow> State option) \<Rightarrow> string list \<Rightarrow> InstalledDetails \<Rightarrow> Run option" where
  "installedListener L fuel store contextualIdentitiesObjects details =
     (case awaitStore fuel store 0 of
        None \<Rightarrow> None
      | Some st \<Rightarrow>
          Some
            (let r0 = emit checkIfProtected (st, []) in
             if reason details = ''install'' then emit runtime_openOptionsPage r0
             else if reason details = ''update'' then
               (let r1 = dispatch L validateSettings r0;
                    r2 = (if convertVersionToNumber L (previousVersion details) < 350 then
                            foldl (migrateDefaults L contextualIdentitiesObjects)
                              (migrateExpressions L (migrateSetting L r1))
                              [GREY L, WHITE L]
                          else r1);
                    r3 = (if convertVersionToNumber L (previousVersion details) < 300
                          then dispatch L RESET_COOKIE_DELETED_COUNTER r2 else r2)
                in if truthy (getSetting L (fst r3) ''enableNewVersionPopup'')
                   then emit runtime_openOptionsPage r3 else r3)
             else r0))"

section \<open>What the handlers are expected to do\<close>

text \<open>A setting that is there and truthy, and one that is there and falsy.\<close>

definition truthyAt :: "Settings \<Rightarrow> string \<Rightarrow> bool" where
  "truthyAt s k = (case s k of None \<Rightarrow> False | Some x \<Rightarrow> truthy (value x))"


text \<open>The condition under which a data type is due for a first cleanup: its
  \<^verbatim>\<open><type>Cleanup\<close> setting was undefined or falsy and is now truthy, unless the type is
  LocalStorage and the previous settings had a truthy \<^verbatim>\<open>localstorageCleanup\<close>.\<close>

definition cleanupDue :: "Libs \<Rightarrow> Settings \<Rightarrow> Settings \<Rightarrow> SiteDataType \<Rightarrow> bool" where
  "cleanupDue L previousSettings currentSettings siteData =
     (\<not> truthyAt previousSettings (siteDataToBrowser L siteData @ ''Cleanup'')
      \<and> truthyAt currentSettings (siteDataToBrowser L siteData @ ''Cleanup'')
      \<and> \<not> (siteData = LOCALSTORAGE L \<and> truthyAt previousSettings ''localstorageCleanup''))"





text \<open>Whether a popup port watches a domain: its name starts with \<^verbatim>\<open>popupCAD_\<close> and the first
  comma-separated field after that prefix ends with the domain or with its main domain.\<close>

definition watchesDomain :: "Libs \<Rightarrow> string \<Rightarrow> Port \<Rightarrow> bool" where
  "watchesDomain L d p =
     (case name p of
        None \<Rightarrow> False
      | Some n \<Rightarrow>
          startsWith n ''popupCAD_''
          \<and> (let field = takeWhile (\<lambda>c. c \<noteq> CHR '','') (drop 9 n)
             in endsWith field d \<or> endsWith field (extractMainDomain L d)))"

text \<open>Removing the first element of a list that satisfies a condition.\<close>

fun removeFirst :: "('a \<Rightarrow> bool) \<Rightarrow> 'a list \<Rightarrow> 'a list" where
  "removeFirst P [] = []"
| "removeFirst P (x # xs) = (if P x then xs else x # removeFirst P xs)"

text \<open>The expressions the migration rewrites: \<^verbatim>\<open>cleanLocalStorage\<close> is set and
  \<^verbatim>\<open>cleanSiteData\<close> is absent.\<close>

definition needsMigration :: "Expression \<Rightarrow> bool" where
  "needsMigration exp = (cleanLocalStorage exp = Some True \<and> cleanSiteData exp = None)"

definition isUpdateSetting :: "Action \<Rightarrow> bool" where
  "isUpdateSetting a = (case a of UPDATE_SETTING n v \<Rightarrow> True | _ \<Rightarrow> False)"

definition isUpdateExpression :: "Action \<Rightarrow> bool" where
  "isUpdateExpression a = (case a of UPDATE_EXPRESSION e \<Rightarrow> True | _ \<Rightarrow> False)"

definition isAddExpression :: "Action \<Rightarrow> bool" where
  "isAddExpression a = (case a of ADD_EXPRESSION e c l s \<Rightarrow> True | _ \<Rightarrow> False)"

text \<open>A port that \<^verbatim>\<open>handleConnect\<close> accepts.\<close>

definition accepted :: "Port \<Rightarrow> bool" where
  "accepted p = (hasName p \<and> startsWith (nameOf p) ''popupCAD_'')"

text \<open>The state of the store after the update handler has dispatched \<^verbatim>\<open>validateSettings\<close>,
  and after it has migrated the deprecated setting as well.\<close>

definition afterValidate :: "Libs \<Rightarrow> State \<Rightarrow> State" where
  "afterValidate L st = store_dispatch L validateSettings st"

definition afterSettingMigration :: "Libs \<Rightarrow> State \<Rightarrow> State" where
  "afterSettingMigration L st =
     (case settings (afterValidate L st) ''localstorageCleanup'' of
        None \<Rightarrow> afterValidate L st
      | Some s \<Rightarrow>
          store_dispatch L (UPDATE_SETTING ''localStorageCleanup'' (value s)) (afterValidate L st))"

section \<open>Concrete inputs\<close>

text \<open>A small instance of the collaborators and two states, on which the theorems below are
  evaluated.\<close>

definition demoLibs :: Libs where
  "demoLibs =
     \<lparr>SITEDATATYPES = [''Cache'', ''LocalStorage''],
      siteDataToBrowser = (\<lambda>s. case s of [] \<Rightarrow> [] | c # cs \<Rightarrow> lowerChar c # cs),
      LOCALSTORAGE = ''LocalStorage'',
      GREY = ''GREY'',
      WHITE = ''WHITE'',
      Firefox = ''Firefox'',
      convertVersionToNumber =
        (\<lambda>v. case v of None \<Rightarrow> - 1
              | Some s \<Rightarrow> if s = ''2.0.0'' then 200 else if s = ''3.4.0'' then 340 else 360),
      extractMainDomain = (\<lambda>d. if startsWith d ''www.'' then slice 4 d else d),
      getSetting = (\<lambda>st k. case settings st k of None \<Rightarrow> VBool False | Some s \<Rightarrow> value s),
      store_dispatch =
        (\<lambda>a st. case a of
                  UPDATE_SETTING n v \<Rightarrow>
                    st\<lparr>settings := (settings st)(n \<mapsto> \<lparr>settingName = n, value = v\<rparr>)\<rparr>
                | _ \<Rightarrow> st),
      createStore = (\<lambda>j. \<lparr>settings = Map.empty, lists' = []\<rparr>),
      JSON_parse =
        (\<lambda>s. if s = ''{}'' then Inr (JObj [])
             else if s = ''[]'' then Inr (JArr []) else Inl SyntaxError),
      JSON_stringify = (\<lambda>st. concat (map fst (lists' st)))\<rparr>"

definition demoState1 :: State where
  "demoState1 = \<lparr>settings = Map.empty, lists' = [(''default'', [])]\<rparr>"

definition demoState2 :: State where
  "demoState2 = \<lparr>settings = Map.empty, lists' = [(''firefox-container-1'', [])]\<rparr>"

definition demoHost :: StartUpHost where
  "demoHost =
     \<lparr>manifest = \<lparr>manifestName = ''Cookie AutoDelete'', version = ''3.5.1''\<rparr>,
      storage_state = Some ''[]'',
      browserDetect = ''Firefox'',
      browserInfo_version = ''78.0.1'',
      platformInfo_os = ''linux'',
      contextMenus = True\<rparr>"

definition mkSettings :: "(string \<times> SettingValue) list \<Rightarrow> Settings" where
  "mkSettings xs = map_of (map (\<lambda>(n, v). (n, \<lparr>settingName = n, value = v\<rparr>)) xs)"




definition demoExpressions :: "Expression list" where
  "demoExpressions =
     [\<lparr>expression = ''*.example.com'', listType = ''WHITE'', storeId = ''default'',
       cleanLocalStorage = Some True, cleanSiteData = None\<rparr>,
      \<lparr>expression = ''*.example.org'', listType = ''GREY'', storeId = ''default'',
       cleanLocalStorage = Some True, cleanSiteData = Some []\<rparr>,
      \<lparr>expression = ''*.example.net'', listType = ''WHITE'', storeId = ''default'',
       cleanLocalStorage = None, cleanSiteData = None\<rparr>]"

definition demoOld :: State where
  "demoOld =
     \<lparr>settings = mkSettings
        [(''activeMode'', VBool True), (''enableGreyListCleanup'', VBool True),
         (''contextualIdentities'', VBool False), (''debugMode'', VBool False),
         (''cleanCookiesFromOpenTabsOnStartup'', VBool False),
         (''localstorageCleanup'', VBool True)],
      lists' = [(''default'', demoExpressions)]\<rparr>"

definition demoStore :: "nat \<Rightarrow> State option" where
  "demoStore n = (if n < 2 then None else Some demoOld)"

definition portA :: Port where
  "portA = \<lparr>portId = 1, name = Some ''popupCAD_www.example.com,firefox-default''\<rparr>"

definition portB :: Port where
  "portB = \<lparr>portId = 2, name = Some ''popupCAD_other.org''\<rparr>"

definition portC :: Port where
  "portC = \<lparr>portId = 3, name = Some ''options''\<rparr>"

definition demoChange :: ChangeInfo where
  "demoChange = \<lparr>removed = False, cookie = \<lparr>domain = ''www.example.com''\<rparr>, cause = ''explicit''\<rparr>"

definition demoPopup :: PopupState where
  "demoPopup =
     \<lparr>cookiePopupPorts = [portA, portB], popupListening = True,
      portListeners = [portA, portB], posted = []\<rparr>"

section \<open>Traces\<close>

lemma fst_emit [simp]: "fst (emit e r) = fst r"
  by (simp add: emit_def)

lemma snd_emit [simp]: "snd (emit e r) = snd r @ [e]"
  by (simp add: emit_def)

lemma fst_dispatch [simp]: "fst (dispatch L a r) = store_dispatch L a (fst r)"
  by (simp add: dispatch_def)

lemma snd_dispatch [simp]: "snd (dispatch L a r) = snd r @ [Dispatch a]"
  by (simp add: dispatch_def)

lemma listenersAdded_append [simp]:
  "listenersAdded (xs @ ys) = listenersAdded xs @ listenersAdded ys"
  by (simp add: listenersAdded_def)

lemma storesCreated_append [simp]:
  "storesCreated (xs @ ys) = storesCreated xs @ storesCreated ys"
  by (simp add: storesCreated_def)

lemma listenersAdded_Nil [simp]: "listenersAdded [] = []"
  by (simp add: listenersAdded_def)

lemma listenersAdded_Cons [simp]:
  "listenersAdded (e # tr) =
     (case e of addListener ev l \<Rightarrow> [(ev, l)] | _ \<Rightarrow> []) @ listenersAdded tr"
  by (simp add: listenersAdded_def)

lemma storesCreated_Nil [simp]: "storesCreated [] = []"
  by (simp add: storesCreated_def)

lemma storesCreated_Cons [simp]:
  "storesCreated (e # tr) = (case e of createStore_with j \<Rightarrow> [j] | _ \<Rightarrow> []) @ storesCreated tr"
  by (simp add: storesCreated_def)

lemma dataRemoved_append [simp]: "dataRemoved (xs @ ys) = dataRemoved xs @ dataRemoved ys"
  by (simp add: dataRemoved_def)

lemma dispatched_append [simp]: "dispatched (xs @ ys) = dispatched xs @ dispatched ys"
  by (simp add: dispatched_def)

lemma dataRemoved_Nil [simp]: "dataRemoved [] = []"
  by (simp add: dataRemoved_def)

lemma dispatched_Nil [simp]: "dispatched [] = []"
  by (simp add: dispatched_def)


lemma dispatched_Cons [simp]:
  "dispatched (e # tr) = (case e of Dispatch a \<Rightarrow> [a] | _ \<Rightarrow> []) @ dispatched tr"
  by (simp add: dispatched_def)

lemma dataRemoved_Cons [simp]:
  "dataRemoved (e # tr) =
     (case e of browsingData_remove_since0 k \<Rightarrow> [k] | _ \<Rightarrow> []) @ dataRemoved tr"
  by (simp add: dataRemoved_def)

section \<open>Properties of saveToStorage\<close>

lemma saveStep_invariant:
  assumes "saveStep L ev s = Some s'"
    and "timers s \<le> 1 \<and> (delaySave s \<longleftrightarrow> timers s = 1)"
  shows "timers s' \<le> 1 \<and> (delaySave s' \<longleftrightarrow> timers s' = 1)"
  using assms by (cases ev) (auto simp: saveToStorage_def flush_def split: if_splits)

lemma saveRun_invariant:
  assumes "saveRun L evs s = Some s'"
    and "timers s \<le> 1 \<and> (delaySave s \<longleftrightarrow> timers s = 1)"
  shows "timers s' \<le> 1 \<and> (delaySave s' \<longleftrightarrow> timers s' = 1)"
  using assms
proof (induction evs arbitrary: s)
  case Nil
  then show ?case by simp
next
  case (Cons ev evs)
  from Cons.prems(1) obtain s1 where step: "saveStep L ev s = Some s1"
    and rest: "saveRun L evs s1 = Some s'"
    by (auto split: option.splits)
  from saveStep_invariant[OF step Cons.prems(2)] Cons.IH[OF rest] show ?case by blast
qed

lemma saveToStorage_pending: "delaySave s \<Longrightarrow> saveToStorage s = s"
  by (simp add: saveToStorage_def)

lemma timer_flush:
  assumes "saveStep L TimerFires s = Some s'"
  shows "\<not> delaySave s' \<and> stored s' = Some (JSON_stringify L (storeState s))"
  using assms by (auto simp: flush_def split: if_splits)

text \<open>
  Claim C8. Whatever calls of \<^verbatim>\<open>saveToStorage\<close>, changes of the store and timer events
  happen, at most one save timer is pending, and one is pending exactly while
  \<^verbatim>\<open>delaySave\<close> is true; a call made while \<^verbatim>\<open>delaySave\<close> is true changes nothing; and when
  the timer fires it clears \<^verbatim>\<open>delaySave\<close>, leaves no timer pending and writes the JSON
  serialization of the store's state as it is at that moment.
\<close>

theorem saveToStorage_debounce:
  assumes "saveRun L evs (saveInit st d) = Some s"
  shows "timers s \<le> 1 \<and> (delaySave s \<longleftrightarrow> timers s = 1)
       \<and> (delaySave s \<longrightarrow> saveToStorage s = s)
       \<and> (\<forall>s'. saveStep L TimerFires s = Some s' \<longrightarrow>
             \<not> delaySave s' \<and> timers s' = 0
             \<and> stored s' = Some (JSON_stringify L (storeState s)))"
proof -
  have init: "timers (saveInit st d) \<le> 1
      \<and> (delaySave (saveInit st d) \<longleftrightarrow> timers (saveInit st d) = 1)"
    by (simp add: saveInit_def)
  have inv: "timers s \<le> 1 \<and> (delaySave s \<longleftrightarrow> timers s = 1)"
    by (rule saveRun_invariant[OF assms init])
  have fire: "\<not> delaySave s' \<and> timers s' = 0
      \<and> stored s' = Some (JSON_stringify L (storeState s))"
    if "saveStep L TimerFires s = Some s'" for s'
  proof -
    from that inv have "timers s = 1" by (auto split: if_splits)
    with that timer_flush[OF that] show ?thesis
      by (auto simp: flush_def split: if_splits)
  qed
  from inv fire saveToStorage_pending show ?thesis by blast
qed

theorem saveToStorage_debounce_witness:
  "saveRun demoLibs [SaveCalled, StateChanges demoState2, SaveCalled] (saveInit demoState1 None)
     = Some \<lparr>delaySave = True, timers = 1, storeState = demoState2, stored = None\<rparr>
   \<and> saveToStorage \<lparr>delaySave = True, timers = 1, storeState = demoState2, stored = None\<rparr>
     = \<lparr>delaySave = True, timers = 1, storeState = demoState2, stored = None\<rparr>
   \<and> saveStep demoLibs TimerFires
       \<lparr>delaySave = True, timers = 1, storeState = demoState2, stored = None\<rparr>
     = Some \<lparr>delaySave = False, timers = 0, storeState = demoState2,
             stored = Some ''firefox-container-1''\<rparr>"
proof -
  have run: "saveRun demoLibs [SaveCalled, StateChanges demoState2, SaveCalled]
      (saveInit demoState1 None)
    = Some \<lparr>delaySave = True, timers = 1, storeState = demoState2, stored = None\<rparr>"
    by (simp add: saveInit_def saveToStorage_def)
  have fire: "saveStep demoLibs TimerFires
       \<lparr>delaySave = True, timers = 1, storeState = demoState2, stored = None\<rparr>
     = Some \<lparr>delaySave = False, timers = 0, storeState = demoState2,
             stored = Some ''firefox-container-1''\<rparr>"
    by (simp add: flush_def demoLibs_def demoState2_def)
  from saveToStorage_debounce[OF run] run fire show ?thesis by simp
qed

section \<open>Properties of onSettingsChange\<close>

lemma andThen_ok [simp]: "andThen (tr, None) b = (tr @ fst b, snd b)"
  by (simp add: andThen_def)





lemma dataRemoved_browsingDataCleanup [simp]:
  "dataRemoved (browsingDataCleanup L siteData debug) = [siteDataToBrowser L siteData]"
  by (simp add: dataRemoved_def browsingDataCleanup_def)

lemma dispatched_browsingDataCleanup [simp]:
  "dispatched (browsingDataCleanup L siteData debug) = []"
  by (simp add: browsingDataCleanup_def)

subsection \<open>What each part of the handler removes and dispatches, in every call\<close>

lemma dataRemoved_containerModeCheck [simp]: "dataRemoved (fst (containerModeCheck p c)) = []"
  by (simp add: containerModeCheck_def throwTypeError_def ok_def dataRemoved_def split: option.splits)

lemma dataRemoved_activeModeCheck [simp]: "dataRemoved (fst (activeModeCheck p c)) = []"
  by (simp add: activeModeCheck_def andThen_def throwTypeError_def ok_def dataRemoved_def
      split: option.splits)

lemma dataRemoved_contextMenuCheck [simp]: "dataRemoved (fst (contextMenuCheck p c)) = []"
  by (simp add: contextMenuCheck_def throwTypeError_def ok_def dataRemoved_def split: option.splits)

lemma dataRemoved_deprecatedSettingsCheck [simp]:
  "dataRemoved (fst (deprecatedSettingsCheck p c)) = []"
  by (simp add: deprecatedSettingsCheck_def throwTypeError_def ok_def dataRemoved_def
      split: option.splits)


lemma dispatched_activeModeCheck [simp]: "dispatched (fst (activeModeCheck p c)) = []"
  by (simp add: activeModeCheck_def andThen_def throwTypeError_def ok_def split: option.splits)

lemma dispatched_contextMenuCheck [simp]: "dispatched (fst (contextMenuCheck p c)) = []"
  by (simp add: contextMenuCheck_def throwTypeError_def ok_def split: option.splits)



subsection \<open>The loop over the data types\<close>

text \<open>One turn of the loop, as the source has it and in terms of the due condition.\<close>

lemma browsingDataCheck_step:
  "browsingDataCheck L p c (x # xs) =
     (if \<not> truthyAt p (siteDataToBrowser L x @ ''Cleanup'') then
        (case c (siteDataToBrowser L x @ ''Cleanup'') of
           None \<Rightarrow> throwTypeError
         | Some v \<Rightarrow>
             if truthy (value v) then
               (if x = LOCALSTORAGE L \<and> truthyAt p ''localstorageCleanup''
                then browsingDataCheck L p c xs
                else (case c ''debugMode'' of
                        None \<Rightarrow> throwTypeError
                      | Some dbg \<Rightarrow>
                          andThen (ok (browsingDataCleanup L x (value dbg)))
                            (browsingDataCheck L p c xs)))
             else browsingDataCheck L p c xs)
      else browsingDataCheck L p c xs)"
  by (cases "p (siteDataToBrowser L x @ ''Cleanup'')"; cases "p ''localstorageCleanup''")
    (auto simp: Let_def truthyAt_def)

lemma browsingDataCheck_Cons:
  "browsingDataCheck L p c (x # xs) =
     (if \<not> truthyAt p (siteDataToBrowser L x @ ''Cleanup'')
         \<and> c (siteDataToBrowser L x @ ''Cleanup'') = None
      then throwTypeError
      else if cleanupDue L p c x then
        (case c ''debugMode'' of
           None \<Rightarrow> throwTypeError
         | Some d \<Rightarrow>
             (browsingDataCleanup L x (value d) @ fst (browsingDataCheck L p c xs),
              snd (browsingDataCheck L p c xs)))
      else browsingDataCheck L p c xs)"
  unfolding browsingDataCheck_step cleanupDue_def
  by (cases "c (siteDataToBrowser L x @ ''Cleanup'')"; cases "c ''debugMode''")
    (auto simp: truthyAt_def[of c] ok_def)


lemma dispatched_browsingDataCheck [simp]: "dispatched (fst (browsingDataCheck L p c xs)) = []"
proof (induction xs)
  case Nil
  show ?case by (simp add: ok_def)
next
  case (Cons x xs)
  then show ?case
    by (simp add: browsingDataCheck_Cons throwTypeError_def split: option.splits
        del: browsingDataCheck.simps)
qed








subsection \<open>The whole call\<close>









text \<open>Without a previous \<^verbatim>\<open>localStorageCleanup\<close> the call cannot end well: if nothing throws
  before, the comparison of the deprecated setting does.\<close>

lemma onSettingsChange_throws_without_localStorageCleanup:
  assumes "previousSettings ''localStorageCleanup'' = None"
  shows "snd (snd (onSettingsChange L previousSettings st)) = Some TypeError"
proof -
  have depr: "deprecatedSettingsCheck previousSettings (settings st) = ([], Some TypeError)"
    using assms by (simp add: deprecatedSettingsCheck_def throwTypeError_def)
  have two: "snd a = None \<or> snd a = Some TypeError \<Longrightarrow> snd b = Some TypeError
      \<Longrightarrow> snd (andThen a b) = Some TypeError" for a b
    by (auto simp: andThen_def)
  have c: "snd (containerModeCheck previousSettings (settings st)) = None
      \<or> snd (containerModeCheck previousSettings (settings st)) = Some TypeError"
    by (simp add: containerModeCheck_def throwTypeError_def ok_def split: option.splits)
  have l: "snd (browsingDataCheck L previousSettings (settings st) xs) = None
      \<or> snd (browsingDataCheck L previousSettings (settings st) xs) = Some TypeError" for xs
    by (induction xs)
      (auto simp: throwTypeError_def ok_def andThen_def Let_def split: option.splits)
  have a: "snd (activeModeCheck previousSettings (settings st)) = None
      \<or> snd (activeModeCheck previousSettings (settings st)) = Some TypeError"
    by (auto simp: activeModeCheck_def andThen_def throwTypeError_def ok_def split: option.splits)
  have m: "snd (contextMenuCheck previousSettings (settings st)) = None
      \<or> snd (contextMenuCheck previousSettings (settings st)) = Some TypeError"
    by (simp add: contextMenuCheck_def throwTypeError_def ok_def split: option.splits)
  have "snd (andThen (deprecatedSettingsCheck previousSettings (settings st))
      (ok [checkIfProtected, Dispatch validateSettings])) = Some TypeError"
    by (simp add: depr andThen_def)
  from two[OF m this] have "snd (andThen (contextMenuCheck previousSettings (settings st))
      (andThen (deprecatedSettingsCheck previousSettings (settings st))
      (ok [checkIfProtected, Dispatch validateSettings]))) = Some TypeError" .
  from two[OF a this] have "snd (andThen (activeModeCheck previousSettings (settings st))
      (andThen (contextMenuCheck previousSettings (settings st))
      (andThen (deprecatedSettingsCheck previousSettings (settings st))
      (ok [checkIfProtected, Dispatch validateSettings])))) = Some TypeError" .
  from two[OF l this] have "snd (andThen (browsingDataCheck L previousSettings (settings st) (SITEDATATYPES L))
      (andThen (activeModeCheck previousSettings (settings st))
      (andThen (contextMenuCheck previousSettings (settings st))
      (andThen (deprecatedSettingsCheck previousSettings (settings st))
      (ok [checkIfProtected, Dispatch validateSettings]))))) = Some TypeError" .
  from two[OF c this] show ?thesis
    by (simp add: onSettingsChange_def Let_def)
qed



section \<open>Properties of onStartUp\<close>

lemma stateFromStorage_parse:
  assumes "JSON_parse L [] = Inl SyntaxError"
  shows "stateFromStorage L state =
    (case state of
       None \<Rightarrow> JObj []
     | Some s \<Rightarrow> (case JSON_parse L s of Inl err \<Rightarrow> JObj [] | Inr j \<Rightarrow> j))"
  using assms by (simp add: stateFromStorage_def parseStored_def split: option.splits)

lemma onStartUp_resume_stores:
  "storesCreated (snd (snd (onStartUp_resume L h))) = [stateFromStorage L (storage_state h)]"
  by (simp add: onStartUp_resume_def Let_def)

lemma onStartUp_resume_listeners:
  "listenersAdded (snd (snd (onStartUp_resume L h))) =
     [(tabs_onUpdated, TabEvents_onDomainChange),
      (tabs_onUpdated, TabEvents_onTabDiscarded),
      (tabs_onUpdated, TabEvents_onTabUpdate),
      (tabs_onRemoved, TabEvents_onDomainChangeRemove),
      (tabs_onRemoved, TabEvents_cleanFromTabEvents),
      (cookies_onChanged, CookieEvents_onCookieChanged)]"
  by (simp add: onStartUp_resume_def Let_def)

lemma onStartUp_resume_ends:
  "\<exists>tr. snd (snd (onStartUp_resume L h)) =
          tr @ [browserAction_setTitle
                  (manifestName (manifest h) @ '' '' @ version (manifest h) @ '' [READY] (0)'')]"
  by (simp add: onStartUp_resume_def Let_def)

text \<open>
  Claim C1. On startup the script reads \<^verbatim>\<open>browser.storage.local\<close> and creates the store exactly
  once: from \<^verbatim>\<open>JSON.parse(storage.state)\<close> when the \<^verbatim>\<open>state\<close> entry exists and parses, and
  from the empty object when the entry is absent or \<^verbatim>\<open>JSON.parse\<close> throws. Whatever the entry
  holds, \<^verbatim>\<open>onStartUp\<close> runs on to its last statement. \<^verbatim>\<open>JSON.parse\<close> is a parameter; the
  source tests the truthiness of the entry before it parses, so the theorem takes from
  JavaScript that parsing the empty string throws.
\<close>

theorem onStartUp_store_from_disk:
  assumes "JSON_parse L [] = Inl SyntaxError"
  shows "storage_local_get \<in> set (background L h)
    \<and> storesCreated (background L h) =
        [case storage_state h of
           None \<Rightarrow> JObj []
         | Some s \<Rightarrow> (case JSON_parse L s of Inl err \<Rightarrow> JObj [] | Inr j \<Rightarrow> j)]
    \<and> (\<exists>tr. snd (snd (onStartUp_resume L h)) =
          tr @ [browserAction_setTitle
                  (manifestName (manifest h) @ '' '' @ version (manifest h) @ '' [READY] (0)'')])"
proof -
  have a: "storage_local_get \<in> set (background L h)"
    by (simp add: background_def onStartUp_begin_def)
  have "storesCreated (background L h) = [stateFromStorage L (storage_state h)]"
    by (simp add: background_def onStartUp_begin_def onStartUp_resume_stores)
  then have b: "storesCreated (background L h) =
        [case storage_state h of
           None \<Rightarrow> JObj []
         | Some s \<Rightarrow> (case JSON_parse L s of Inl err \<Rightarrow> JObj [] | Inr j \<Rightarrow> j)]"
    by (simp add: stateFromStorage_parse[OF assms])
  from a b onStartUp_resume_ends show ?thesis
    by blast
qed

text \<open>
  Claim C2. The module and \<^verbatim>\<open>onStartUp\<close> add these listeners to browser events and no others:
  \<^verbatim>\<open>handleConnect\<close> on \<^verbatim>\<open>runtime.onConnect\<close>, one listener each on \<^verbatim>\<open>runtime.onStartup\<close> and
  \<^verbatim>\<open>runtime.onInstalled\<close>, three listeners on \<^verbatim>\<open>tabs.onUpdated\<close>, two on \<^verbatim>\<open>tabs.onRemoved\<close>,
  and \<^verbatim>\<open>CookieEvents.onCookieChanged\<close> on \<^verbatim>\<open>cookies.onChanged\<close>.
\<close>

theorem background_listeners:
  "listenersAdded (background L h) =
     [(runtime_onConnect, the_handleConnect),
      (runtime_onStartup, the_startupListener),
      (runtime_onInstalled, the_installedListener),
      (tabs_onUpdated, TabEvents_onDomainChange),
      (tabs_onUpdated, TabEvents_onTabDiscarded),
      (tabs_onUpdated, TabEvents_onTabUpdate),
      (tabs_onRemoved, TabEvents_onDomainChangeRemove),
      (tabs_onRemoved, TabEvents_cleanFromTabEvents),
      (cookies_onChanged, CookieEvents_onCookieChanged)]"
  by (simp add: background_def onStartUp_begin_def onStartUp_resume_listeners)


theorem onStartUp_store_from_disk_witness:
  "storesCreated (background demoLibs demoHost) = [JArr []]
   \<and> storesCreated (background demoLibs (demoHost\<lparr>storage_state := Some ''{oops''\<rparr>)) = [JObj []]
   \<and> storesCreated (background demoLibs (demoHost\<lparr>storage_state := Some []\<rparr>)) = [JObj []]
   \<and> storesCreated (background demoLibs (demoHost\<lparr>storage_state := None\<rparr>)) = [JObj []]
   \<and> storage_local_get \<in> set (background demoLibs demoHost)"
proof -
  have p: "JSON_parse demoLibs [] = Inl SyntaxError"
    by (simp add: demoLibs_def)
  from onStartUp_store_from_disk[OF p, of demoHost]
    onStartUp_store_from_disk[OF p, of "demoHost\<lparr>storage_state := Some ''{oops''\<rparr>"]
    onStartUp_store_from_disk[OF p, of "demoHost\<lparr>storage_state := Some []\<rparr>"]
    onStartUp_store_from_disk[OF p, of "demoHost\<lparr>storage_state := None\<rparr>"]
  show ?thesis
    by (simp add: demoLibs_def demoHost_def)
qed

theorem background_listeners_witness:
  "listenersAdded (background demoLibs demoHost) =
     [(runtime_onConnect, the_handleConnect),
      (runtime_onStartup, the_startupListener),
      (runtime_onInstalled, the_installedListener),
      (tabs_onUpdated, TabEvents_onDomainChange),
      (tabs_onUpdated, TabEvents_onTabDiscarded),
      (tabs_onUpdated, TabEvents_onTabUpdate),
      (tabs_onRemoved, TabEvents_onDomainChangeRemove),
      (tabs_onRemoved, TabEvents_cleanFromTabEvents),
      (cookies_onChanged, CookieEvents_onCookieChanged)]
   \<and> background demoLibs demoHost =
     [addListener runtime_onConnect the_handleConnect,
      browserAction_setTitle ''Cookie AutoDelete 3.5.1 [STARTING UP...] (0)'',
      storage_local_get,
      addListener runtime_onStartup the_startupListener,
      addListener runtime_onInstalled the_installedListener,
      createStore_with (JArr []),
      Dispatch ON_STARTUP,
      runtime_getBrowserInfo,
      Dispatch (ADD_CACHE ''browserVersion'' ''78''),
      Dispatch (ADD_CACHE ''browserDetect'' ''Firefox''),
      runtime_getPlatformInfo,
      Dispatch (ADD_CACHE ''platformOs'' ''linux''),
      store_subscribe the_onSettingsChange,
      store_subscribe the_saveToStorage,
      StoreUser_init,
      Dispatch validateSettings,
      setGlobalIcon (VBool False),
      checkIfProtected,
      addListener tabs_onUpdated TabEvents_onDomainChange,
      addListener tabs_onUpdated TabEvents_onTabDiscarded,
      addListener tabs_onUpdated TabEvents_onTabUpdate,
      addListener tabs_onRemoved TabEvents_onDomainChangeRemove,
      addListener tabs_onRemoved TabEvents_cleanFromTabEvents,
      addListener cookies_onChanged CookieEvents_onCookieChanged,
      ContextMenuEvents_menuInit,
      browserAction_setTitle ''Cookie AutoDelete 3.5.1 [READY] (0)'',
      cadLog ''background.onStartUp has been executed'' (VBool False)]"
proof -
  have "background demoLibs demoHost =
     [addListener runtime_onConnect the_handleConnect,
      browserAction_setTitle ''Cookie AutoDelete 3.5.1 [STARTING UP...] (0)'',
      storage_local_get,
      addListener runtime_onStartup the_startupListener,
      addListener runtime_onInstalled the_installedListener,
      createStore_with (JArr []),
      Dispatch ON_STARTUP,
      runtime_getBrowserInfo,
      Dispatch (ADD_CACHE ''browserVersion'' ''78''),
      Dispatch (ADD_CACHE ''browserDetect'' ''Firefox''),
      runtime_getPlatformInfo,
      Dispatch (ADD_CACHE ''platformOs'' ''linux''),
      store_subscribe the_onSettingsChange,
      store_subscribe the_saveToStorage,
      StoreUser_init,
      Dispatch validateSettings,
      setGlobalIcon (VBool False),
      checkIfProtected,
      addListener tabs_onUpdated TabEvents_onDomainChange,
      addListener tabs_onUpdated TabEvents_onTabDiscarded,
      addListener tabs_onUpdated TabEvents_onTabUpdate,
      addListener tabs_onRemoved TabEvents_onDomainChangeRemove,
      addListener tabs_onRemoved TabEvents_cleanFromTabEvents,
      addListener cookies_onChanged CookieEvents_onCookieChanged,
      ContextMenuEvents_menuInit,
      browserAction_setTitle ''Cookie AutoDelete 3.5.1 [READY] (0)'',
      cadLog ''background.onStartUp has been executed'' (VBool False)]"
    by (simp add: background_def onStartUp_begin_def onStartUp_resume_def Let_def
        stateFromStorage_def parseStored_def demoLibs_def demoHost_def)
  with background_listeners[of demoLibs demoHost] show ?thesis by simp
qed

section \<open>Properties of the popup ports\<close>

lemma splitOn_first: "splitOn c s = takeWhile (\<lambda>x. x \<noteq> c) s # tl (splitOn c s)"
  by (induction s) (auto split: list.splits)

lemma notifies_watchesDomain:
  "notifies L changeInfo p = watchesDomain L (domain (cookie changeInfo)) p"
proof (cases "name p")
  case None
  then show ?thesis by (simp add: notifies_def watchesDomain_def hasName_def)
next
  case (Some n)
  have empty: "\<not> startsWith [] ''popupCAD_''" by (simp add: startsWith_def)
  show ?thesis
  proof (cases "n = []")
    case True
    with Some empty show ?thesis
      by (simp add: notifies_def watchesDomain_def hasName_def)
  next
    case False
    obtain rest where "splitOn CHR '','' (slice 9 n)
        = takeWhile (\<lambda>c. c \<noteq> CHR '','') (drop 9 n) # rest"
      using splitOn_first[of "CHR '',''" "slice 9 n"] by (simp add: slice_def)
    with Some False show ?thesis
      by (simp add: notifies_def watchesDomain_def hasName_def nameOf_def Let_def)
  qed
qed

lemma foldl_append_filter:
  "foldl (\<lambda>sent p. if P p then sent @ [p] else sent) acc xs = acc @ filter P xs"
  by (induction xs arbitrary: acc) simp_all

text \<open>
  Claim C10. For a cookie change, \<^verbatim>\<open>onCookiePopupUpdates\<close> posts \<^verbatim>\<open>{ cookieUpdated: true }\<close> to
  the stored ports that watch the cookie's domain, in order, and to no other port: the name
  starts with \<^verbatim>\<open>popupCAD_\<close> and the first comma-separated field after the prefix ends with
  the domain or with \<^verbatim>\<open>extractMainDomain\<close> of it. The stored ports stay as they are.
\<close>

theorem onCookiePopupUpdates_posts:
  "posted (onCookiePopupUpdates L changeInfo s)
     = posted s @ filter (watchesDomain L (domain (cookie changeInfo))) (cookiePopupPorts s)
   \<and> cookiePopupPorts (onCookiePopupUpdates L changeInfo s) = cookiePopupPorts s"
proof -
  have "notifies L changeInfo = watchesDomain L (domain (cookie changeInfo))"
    by (rule ext) (rule notifies_watchesDomain)
  then show ?thesis
    by (simp add: onCookiePopupUpdates_def foldl_append_filter)
qed

theorem onCookiePopupUpdates_posts_witness:
  "posted (onCookiePopupUpdates demoLibs demoChange demoPopup) = [portA]
   \<and> posted (onCookiePopupUpdates demoLibs
        \<lparr>removed = True, cookie = \<lparr>domain = ''other.org''\<rparr>, cause = ''expired''\<rparr> demoPopup) = [portB]
   \<and> posted (onCookiePopupUpdates demoLibs
        \<lparr>removed = True, cookie = \<lparr>domain = ''unrelated.net''\<rparr>, cause = ''expired''\<rparr> demoPopup) = []"
  using onCookiePopupUpdates_posts[of demoLibs demoChange demoPopup]
    onCookiePopupUpdates_posts[of demoLibs
      "\<lparr>removed = True, cookie = \<lparr>domain = ''other.org''\<rparr>, cause = ''expired''\<rparr>" demoPopup]
    onCookiePopupUpdates_posts[of demoLibs
      "\<lparr>removed = True, cookie = \<lparr>domain = ''unrelated.net''\<rparr>, cause = ''expired''\<rparr>" demoPopup]
  by (simp add: watchesDomain_def startsWith_def endsWith_def slice_def demoLibs_def demoChange_def
      demoPopup_def portA_def portB_def)

lemma findIndex_splice1: 
  "(case findIndex P xs of None \<Rightarrow> xs | Some i \<Rightarrow> splice1 i xs) = removeFirst P xs"
  by (induction xs) (auto simp: splice1_def split: option.splits)

lemma set_removeFirst: "set (removeFirst P xs) \<subseteq> set xs"
  by (induction xs) auto

lemma ports_onDisconnect:
  "cookiePopupPorts (onDisconnect dp s) =
     (if hasName dp then removeFirst (\<lambda>pp. name pp = name dp) (cookiePopupPorts s)
      else cookiePopupPorts s)"
proof (cases "hasName dp")
  case False
  then show ?thesis by (simp add: onDisconnect_def Let_def)
next
  case True
  then have same: "(\<lambda>pp. if \<not> hasName pp then False else name pp = name dp)
      = (\<lambda>pp. name pp = name dp)"
    by (auto simp: hasName_def fun_eq_iff split: option.splits)
  have "cookiePopupPorts (onDisconnect dp s) =
      (case findIndex (\<lambda>pp. name pp = name dp) (cookiePopupPorts s) of
         None \<Rightarrow> cookiePopupPorts s
       | Some i \<Rightarrow> splice1 i (cookiePopupPorts s))"
    using True by (simp add: onDisconnect_def Let_def same split: option.splits)
  with True show ?thesis by (simp add: findIndex_splice1)
qed

lemma listening_onDisconnect:
  "popupListening (onDisconnect dp s)
     \<longleftrightarrow> popupListening s \<and> length (cookiePopupPorts s) \<noteq> 1"
  by (auto simp: onDisconnect_def Let_def split: option.splits)

lemma popupStep_accepted:
  assumes "\<forall>p \<in> set (cookiePopupPorts s). accepted p"
  shows "\<forall>p \<in> set (cookiePopupPorts (popupStep L s ev)). accepted p"
proof (cases ev)
  case (Connects p)
  with assms show ?thesis by (auto simp: handleConnect_def accepted_def)
next
  case (Disconnects dp)
  with assms set_removeFirst[of "\<lambda>pp. name pp = name dp" "cookiePopupPorts s"] show ?thesis
    by (auto simp: ports_onDisconnect)
next
  case (CookieChanges changeInfo)
  with assms show ?thesis by (simp add: onCookiePopupUpdates_def)
qed

lemma popupRun_accepted:
  assumes "\<forall>p \<in> set (cookiePopupPorts s). accepted p"
  shows "\<forall>p \<in> set (cookiePopupPorts (popupRun L evs s)). accepted p"
  using assms unfolding popupRun_def
proof (induction evs arbitrary: s)
  case Nil
  then show ?case by simp
next
  case (Cons ev evs)
  from Cons.IH[OF popupStep_accepted[OF Cons.prems]] show ?case by simp
qed

text \<open>
  Claim C9. Whatever ports connect and disconnect and whatever cookies change, every port in
  \<^verbatim>\<open>cookiePopupPorts\<close> has a name that starts with \<^verbatim>\<open>popupCAD_\<close>. \<^verbatim>\<open>handleConnect\<close> changes
  nothing for a port whose name is missing, empty or without that prefix; a port it accepts
  is sent \<^verbatim>\<open>{ cookieUpdated: true }\<close> and appended. When a port disconnects, the first stored
  port with the same name is removed, and \<^verbatim>\<open>onCookiePopupUpdates\<close> stops being a listener
  exactly when it was one and one port was stored.
\<close>

theorem popup_ports:
  "(\<forall>p \<in> set (cookiePopupPorts (popupRun L evs popupInit)).
      \<exists>n. name p = Some n \<and> startsWith n ''popupCAD_'')
   \<and> (\<not> hasName p \<or> \<not> startsWith (nameOf p) ''popupCAD_'' \<longrightarrow> handleConnect p s = s)
   \<and> (hasName p \<and> startsWith (nameOf p) ''popupCAD_'' \<longrightarrow>
        posted (handleConnect p s) = posted s @ [p]
        \<and> cookiePopupPorts (handleConnect p s) = cookiePopupPorts s @ [p])
   \<and> cookiePopupPorts (onDisconnect dp s) =
        (if hasName dp then removeFirst (\<lambda>pp. name pp = name dp) (cookiePopupPorts s)
         else cookiePopupPorts s)
   \<and> (popupListening (onDisconnect dp s)
        \<longleftrightarrow> popupListening s \<and> length (cookiePopupPorts s) \<noteq> 1)"
proof -
  have "\<forall>p \<in> set (cookiePopupPorts (popupRun L evs popupInit)). accepted p"
    by (rule popupRun_accepted) (simp add: popupInit_def)
  then have inv: "\<forall>p \<in> set (cookiePopupPorts (popupRun L evs popupInit)).
      \<exists>n. name p = Some n \<and> startsWith n ''popupCAD_''"
    by (auto simp: accepted_def hasName_def nameOf_def split: option.splits)
  have conn: "posted (handleConnect p s) = posted s @ [p]
        \<and> cookiePopupPorts (handleConnect p s) = cookiePopupPorts s @ [p]"
    if "hasName p \<and> startsWith (nameOf p) ''popupCAD_''"
    using that by (simp add: handleConnect_def)
  have rej: "handleConnect p s = s" if "\<not> hasName p \<or> \<not> startsWith (nameOf p) ''popupCAD_''"
    using that by (auto simp: handleConnect_def)
  from inv conn rej ports_onDisconnect[of dp s] listening_onDisconnect[of dp s]
  show ?thesis by blast
qed

theorem popup_ports_witness:
  "cookiePopupPorts (popupRun demoLibs [Connects portA, Connects portC, Connects portB] popupInit)
     = [portA, portB]
   \<and> handleConnect portC popupInit = popupInit
   \<and> posted (handleConnect portA popupInit) = [portA]
   \<and> cookiePopupPorts (handleConnect portA popupInit) = [portA]
   \<and> cookiePopupPorts (onDisconnect portA demoPopup) = [portB]
   \<and> popupListening (onDisconnect portA demoPopup)
   \<and> \<not> popupListening (onDisconnect portB (onDisconnect portA demoPopup))"
proof -
  have run: "cookiePopupPorts (popupRun demoLibs [Connects portA, Connects portC, Connects portB] popupInit)
     = [portA, portB]"
    by (simp add: popupRun_def handleConnect_def hasName_def nameOf_def startsWith_def popupInit_def
        portA_def portB_def portC_def)
  have ca: "hasName portA \<and> startsWith (nameOf portA) ''popupCAD_''"
    and cc: "\<not> hasName portC \<or> \<not> startsWith (nameOf portC) ''popupCAD_''"
    and na: "hasName portA" and nb: "hasName portB"
    by (simp_all add: hasName_def nameOf_def startsWith_def portA_def portB_def portC_def)
  have one: "cookiePopupPorts (onDisconnect portA demoPopup) = [portB]"
    using popup_ports[of demoLibs "[]" portA demoPopup portA] na
    by (simp add: demoPopup_def portA_def portB_def)
  from popup_ports[of demoLibs "[]" portC popupInit portA] cc
  have rej: "handleConnect portC popupInit = popupInit" by blast
  from popup_ports[of demoLibs "[]" portA popupInit portA] ca
  have acc: "posted (handleConnect portA popupInit) = [portA]"
    "cookiePopupPorts (handleConnect portA popupInit) = [portA]"
    by (simp_all add: popupInit_def)
  from popup_ports[of demoLibs "[]" portA demoPopup portA]
  have l1: "popupListening (onDisconnect portA demoPopup)"
    by (simp add: demoPopup_def)
  from popup_ports[of demoLibs "[]" portA "onDisconnect portA demoPopup" portB] one
  have l2: "\<not> popupListening (onDisconnect portB (onDisconnect portA demoPopup))"
    by simp
  from run rej acc one l1 l2 show ?thesis by simp
qed

section \<open>Properties of the listeners of runtime.onStartup and runtime.onInstalled\<close>

lemma awaitStore_from:
  assumes "store (n + k) = Some st"
    and "\<forall>j<k. store (n + j) = None"
    and "k < fuel"
  shows "awaitStore fuel store n = Some st"
  using assms
proof (induction k arbitrary: fuel n)
  case 0
  then obtain f where "fuel = Suc f" by (cases fuel) auto
  with 0 show ?case by simp
next
  case (Suc k)
  then obtain f where f: "fuel = Suc f" by (cases fuel) auto
  from Suc.prems(2) have here: "store n = None" by (metis add.right_neutral zero_less_Suc)
  have "awaitStore f store (Suc n) = Some st"
  proof (rule Suc.IH)
    show "store (Suc n + k) = Some st" using Suc.prems(1) by simp
    show "\<forall>j<k. store (Suc n + j) = None"
    proof (intro allI impI)
      fix j assume "j < k"
      then have "Suc j < Suc k" by simp
      with Suc.prems(2) have "store (n + Suc j) = None" by blast
      then show "store (Suc n + j) = None" by simp
    qed
    show "k < f" using Suc.prems(3) f by simp
  qed
  with here f show ?case by simp
qed

lemma awaitStore_finds:
  assumes "store k = Some st" and "\<forall>j<k. store j = None" and "k < fuel"
  shows "awaitStore fuel store 0 = Some st"
  using awaitStore_from[of store 0 k st fuel] assms by simp

text \<open>While the store is never set, the loop does not come back, whatever the fuel.\<close>

lemma awaitStore_never:
  assumes "\<forall>n. store n = None"
  shows "awaitStore fuel store k = None"
  using assms by (induction fuel arbitrary: k) simp_all

lemma sessionRestore_flag:
  "foldl (\<lambda>b tab. if url tab = Some u then True else b) b0 tabs
     = (b0 \<or> (\<exists>tab \<in> set tabs. url tab = Some u))"
  by (induction tabs arbitrary: b0) auto

text \<open>
  Claim C6. Once the store is there, the listener of \<^verbatim>\<open>runtime.onStartup\<close> dispatches
  \<^verbatim>\<open>cookieCleanup\<close> with \<^verbatim>\<open>greyCleanup: true\<close> if the settings \<^verbatim>\<open>activeMode\<close> and
  \<^verbatim>\<open>enableGreyListCleanup\<close> are both \<^verbatim>\<open>true\<close> and no tab of a normal window has the url
  \<^verbatim>\<open>about:sessionrestore\<close>; otherwise it dispatches nothing at all.
\<close>

theorem startup_greyCleanup:
  assumes "store k = Some st" and "\<forall>j<k. store j = None" and "k < fuel"
  shows "\<exists>r. startupListener L fuel store startupTabs = Some r
    \<and> dispatched (snd r) =
        (if getSetting L st ''activeMode'' = VBool True
            \<and> getSetting L st ''enableGreyListCleanup'' = VBool True
            \<and> \<not> (\<exists>tab \<in> set startupTabs. url tab = Some ''about:sessionrestore'')
         then [cookieCleanup True (getSetting L st ''cleanCookiesFromOpenTabsOnStartup'')]
         else [])"
  by (simp add: startupListener_def awaitStore_finds[OF assms] Let_def greyCleanup_def
      sessionRestore_flag)

lemma demoStore_found:
  "demoStore 2 = Some demoOld" "\<forall>j<2. demoStore j = None" "(2::nat) < 5"
  by (simp_all add: demoStore_def)

theorem startup_greyCleanup_witness:
  "map_option (dispatched \<circ> snd)
      (startupListener demoLibs 5 demoStore [\<lparr>url = Some ''https://example.com/''\<rparr>])
     = Some [cookieCleanup True (VBool False)]
   \<and> map_option (dispatched \<circ> snd)
      (startupListener demoLibs 5 demoStore
         [\<lparr>url = Some ''https://example.com/''\<rparr>, \<lparr>url = Some ''about:sessionrestore''\<rparr>])
     = Some []"
proof -
  have g: "getSetting demoLibs demoOld ''activeMode'' = VBool True"
    "getSetting demoLibs demoOld ''enableGreyListCleanup'' = VBool True"
    "getSetting demoLibs demoOld ''cleanCookiesFromOpenTabsOnStartup'' = VBool False"
    by (simp_all add: demoLibs_def demoOld_def mkSettings_def)
  from startup_greyCleanup[OF demoStore_found, of demoLibs "[\<lparr>url = Some ''https://example.com/''\<rparr>]"]
  have a: "map_option (dispatched \<circ> snd)
      (startupListener demoLibs 5 demoStore [\<lparr>url = Some ''https://example.com/''\<rparr>])
     = Some [cookieCleanup True (VBool False)]"
    by (auto simp: g)
  from startup_greyCleanup[OF demoStore_found, of demoLibs
      "[\<lparr>url = Some ''https://example.com/''\<rparr>, \<lparr>url = Some ''about:sessionrestore''\<rparr>]"]
  have b: "map_option (dispatched \<circ> snd)
      (startupListener demoLibs 5 demoStore
         [\<lparr>url = Some ''https://example.com/''\<rparr>, \<lparr>url = Some ''about:sessionrestore''\<rparr>])
     = Some []"
    by (auto simp: g)
  from a b show ?thesis by simp
qed

lemma dispatched_migrateSetting:
  "dispatched (snd (migrateSetting L r)) =
     dispatched (snd r) @
       (case settings (fst r) ''localstorageCleanup'' of
          None \<Rightarrow> []
        | Some s \<Rightarrow> [UPDATE_SETTING ''localStorageCleanup'' (value s)])"
  by (simp add: migrateSetting_def split: option.splits)

lemma dispatched_foldl_dispatch:
  "dispatched (snd (foldl (\<lambda>r x. if P x then dispatch L (f x) r else r) r0 xs))
     = dispatched (snd r0) @ map f (filter P xs)"
  by (induction xs arbitrary: r0) simp_all

lemma dispatched_foldl_foldl_dispatch:
  "dispatched (snd (foldl (\<lambda>r1 xs. foldl (\<lambda>r x. if P x then dispatch L (f x) r else r) r1 xs) r0 xss))
     = dispatched (snd r0) @ map f (filter P (concat xss))"
  by (induction xss arbitrary: r0) (simp_all add: dispatched_foldl_dispatch)

lemma dispatched_migrateExpressions:
  "dispatched (snd (migrateExpressions L r)) =
     dispatched (snd r) @
       map (\<lambda>exp. UPDATE_EXPRESSION (exp\<lparr>cleanSiteData := Some [LOCALSTORAGE L]\<rparr>))
         (filter needsMigration (concat (map snd (lists' (fst r)))))"
proof -
  have "needsMigration = (\<lambda>exp. cleanLocalStorage exp = Some True \<and> cleanSiteData exp = None)"
    by (simp add: needsMigration_def fun_eq_iff)
  then show ?thesis
    unfolding migrateExpressions_def
    by (simp add: dispatched_foldl_foldl_dispatch
        [where P="\<lambda>exp. cleanLocalStorage exp = Some True \<and> cleanSiteData exp = None"])
qed

lemma dispatched_foldl_always:
  "dispatched (snd (foldl (\<lambda>r x. dispatch L (f x) r) r0 xs)) = dispatched (snd r0) @ map f xs"
  by (induction xs arbitrary: r0) simp_all

lemma dispatched_migrateDefaults:
  "\<exists>ds. dispatched (snd (migrateDefaults L cs r lt)) = dispatched (snd r) @ ds
        \<and> list_all isAddExpression ds"
  by (simp add: migrateDefaults_def Let_def dispatched_foldl_always list_all_iff isAddExpression_def)

lemma dispatched_migrateDefaults_both:
  "\<exists>ds. dispatched (snd (foldl (migrateDefaults L cs) r [g, w])) = dispatched (snd r) @ ds
        \<and> list_all isAddExpression ds"
proof -
  obtain d1 where d1: "dispatched (snd (migrateDefaults L cs r g)) = dispatched (snd r) @ d1"
    "list_all isAddExpression d1"
    using dispatched_migrateDefaults by blast
  obtain d2 where d2: "dispatched (snd (migrateDefaults L cs (migrateDefaults L cs r g) w))
      = dispatched (snd (migrateDefaults L cs r g)) @ d2" "list_all isAddExpression d2"
    using dispatched_migrateDefaults by blast
  from d1 d2 have "dispatched (snd (foldl (migrateDefaults L cs) r [g, w]))
      = dispatched (snd r) @ (d1 @ d2) \<and> list_all isAddExpression (d1 @ d2)"
    by simp
  then show ?thesis by blast
qed


lemma only_addExpressions:
  assumes "list_all isAddExpression ds"
  shows "filter isUpdateSetting ds = [] \<and> filter isUpdateExpression ds = []
    \<and> RESET_COOKIE_DELETED_COUNTER \<notin> set ds"
  using assms
  by (induction ds)
    (auto simp: isAddExpression_def isUpdateSetting_def isUpdateExpression_def split: Action.splits)

lemma filter_updateExpressions [simp]:
  "filter isUpdateExpression (map (\<lambda>exp. UPDATE_EXPRESSION (g exp)) xs)
     = map (\<lambda>exp. UPDATE_EXPRESSION (g exp)) xs"
  "filter isUpdateSetting (map (\<lambda>exp. UPDATE_EXPRESSION (g exp)) xs) = []"
  "RESET_COOKIE_DELETED_COUNTER \<notin> set (map (\<lambda>exp. UPDATE_EXPRESSION (g exp)) xs)"
  by (induction xs) (auto simp: isUpdateExpression_def isUpdateSetting_def)

lemma installed_update_dispatched:
  assumes aw: "awaitStore fuel store 0 = Some st"
    and upd: "reason details = ''update''"
  shows "\<exists>r ds. installedListener L fuel store cs details = Some r
    \<and> list_all isAddExpression ds
    \<and> dispatched (snd r) =
        [validateSettings]
        @ (if convertVersionToNumber L (previousVersion details) < 350 then
             (case settings (afterValidate L st) ''localstorageCleanup'' of
                None \<Rightarrow> []
              | Some s \<Rightarrow> [UPDATE_SETTING ''localStorageCleanup'' (value s)])
             @ map (\<lambda>exp. UPDATE_EXPRESSION (exp\<lparr>cleanSiteData := Some [LOCALSTORAGE L]\<rparr>))
                 (filter needsMigration (concat (map snd (lists' (afterSettingMigration L st)))))
             @ ds
           else [])
        @ (if convertVersionToNumber L (previousVersion details) < 300
           then [RESET_COOKIE_DELETED_COUNTER] else [])"
proof -
  let ?r1 = "dispatch L validateSettings (emit checkIfProtected (st, []))"
  have st2: "fst (migrateSetting L ?r1) = afterSettingMigration L st"
    by (simp add: migrateSetting_def afterSettingMigration_def afterValidate_def split: option.splits)
  obtain ds where ds: "dispatched (snd (foldl (migrateDefaults L cs)
        (migrateExpressions L (migrateSetting L ?r1)) [GREY L, WHITE L]))
      = dispatched (snd (migrateExpressions L (migrateSetting L ?r1))) @ ds"
    "list_all isAddExpression ds"
    using dispatched_migrateDefaults_both by blast
  have mig: "dispatched (snd (foldl (migrateDefaults L cs)
        (migrateExpressions L (migrateSetting L ?r1)) [GREY L, WHITE L]))
      = [validateSettings]
        @ (case settings (afterValidate L st) ''localstorageCleanup'' of
                None \<Rightarrow> []
              | Some s \<Rightarrow> [UPDATE_SETTING ''localStorageCleanup'' (value s)])
        @ map (\<lambda>exp. UPDATE_EXPRESSION (exp\<lparr>cleanSiteData := Some [LOCALSTORAGE L]\<rparr>))
                 (filter needsMigration (concat (map snd (lists' (afterSettingMigration L st)))))
        @ ds"
    unfolding ds(1) dispatched_migrateExpressions st2 dispatched_migrateSetting
    by (simp add: afterValidate_def)
  have plain: "dispatched (snd ?r1) = [validateSettings]" by simp
  show ?thesis
    apply (simp only: installedListener_def aw upd option.case Let_def)
    apply (rule exI, rule exI[of _ ds])
    apply (rule conjI, rule refl)
    apply (rule conjI, rule ds(2))
    apply (cases "convertVersionToNumber L (previousVersion details) < 350";
           cases "convertVersionToNumber L (previousVersion details) < 300")
    apply (simp_all add: mig del: foldl.simps foldl_Cons)
    done
qed

text \<open>
  Claim C3. Once the store is there, the listener of \<^verbatim>\<open>runtime.onInstalled\<close> calls
  \<^verbatim>\<open>checkIfProtected\<close> and then looks at the reason. For \<^verbatim>\<open>install\<close> it opens the options page
  and dispatches nothing. For \<^verbatim>\<open>update\<close> it dispatches \<^verbatim>\<open>validateSettings\<close> first, and
  \<^verbatim>\<open>RESET_COOKIE_DELETED_COUNTER\<close> is among its dispatches exactly when
  \<^verbatim>\<open>convertVersionToNumber(details.previousVersion) < 300\<close>. For any other reason it does
  nothing more: no dispatch, no other call, and the store is as it was.
\<close>

theorem onInstalled_reasons:
  assumes "store k = Some st" and "\<forall>j<k. store j = None" and "k < fuel"
  shows "\<exists>r. installedListener L fuel store cs details = Some r
    \<and> (reason details = ''install'' \<longrightarrow> r = (st, [checkIfProtected, runtime_openOptionsPage]))
    \<and> (reason details = ''update'' \<longrightarrow>
         (\<exists>rest. dispatched (snd r) = validateSettings # rest)
         \<and> (RESET_COOKIE_DELETED_COUNTER \<in> set (dispatched (snd r))
              \<longleftrightarrow> convertVersionToNumber L (previousVersion details) < 300))
    \<and> (reason details \<noteq> ''install'' \<and> reason details \<noteq> ''update'' \<longrightarrow> r = (st, [checkIfProtected]))"
proof -
  note aw = awaitStore_finds[OF assms]
  show ?thesis
  proof (cases "reason details = ''update''")
    case True
    from installed_update_dispatched[OF aw True, of L cs]
    obtain r ds where r: "installedListener L fuel store cs details = Some r"
      and ds: "list_all isAddExpression ds"
      and d: "dispatched (snd r) =
        [validateSettings]
        @ (if convertVersionToNumber L (previousVersion details) < 350 then
             (case settings (afterValidate L st) ''localstorageCleanup'' of
                None \<Rightarrow> []
              | Some s \<Rightarrow> [UPDATE_SETTING ''localStorageCleanup'' (value s)])
             @ map (\<lambda>exp. UPDATE_EXPRESSION (exp\<lparr>cleanSiteData := Some [LOCALSTORAGE L]\<rparr>))
                 (filter needsMigration (concat (map snd (lists' (afterSettingMigration L st)))))
             @ ds
           else [])
        @ (if convertVersionToNumber L (previousVersion details) < 300
           then [RESET_COOKIE_DELETED_COUNTER] else [])"
      by blast
    from only_addExpressions[OF ds] have nods: "RESET_COOKIE_DELETED_COUNTER \<notin> set ds" by simp
    have first: "\<exists>rest. dispatched (snd r) = validateSettings # rest"
      unfolding d by simp
    have reset: "RESET_COOKIE_DELETED_COUNTER \<in> set (dispatched (snd r))
              \<longleftrightarrow> convertVersionToNumber L (previousVersion details) < 300"
      unfolding d using nods by (auto split: option.splits)
    from r first reset True show ?thesis by simp
  next
    case False
    then show ?thesis
      by (simp add: installedListener_def aw emit_def)
  qed
qed

theorem onInstalled_reasons_witness:
  "installedListener demoLibs 5 demoStore [] \<lparr>reason = ''install'', previousVersion = None\<rparr>
     = Some (demoOld, [checkIfProtected, runtime_openOptionsPage])
   \<and> installedListener demoLibs 5 demoStore [] \<lparr>reason = ''browser_update'', previousVersion = None\<rparr>
     = Some (demoOld, [checkIfProtected])
   \<and> RESET_COOKIE_DELETED_COUNTER \<in> set (dispatched (snd (the
        (installedListener demoLibs 5 demoStore []
           \<lparr>reason = ''update'', previousVersion = Some ''2.0.0''\<rparr>))))
   \<and> RESET_COOKIE_DELETED_COUNTER \<notin> set (dispatched (snd (the
        (installedListener demoLibs 5 demoStore []
           \<lparr>reason = ''update'', previousVersion = Some ''3.4.0''\<rparr>))))
   \<and> hd (dispatched (snd (the
        (installedListener demoLibs 5 demoStore []
           \<lparr>reason = ''update'', previousVersion = Some ''3.4.0''\<rparr>)))) = validateSettings"
proof -
  from onInstalled_reasons[OF demoStore_found, of demoLibs "[]"
      "\<lparr>reason = ''install'', previousVersion = None\<rparr>"]
  have a: "installedListener demoLibs 5 demoStore [] \<lparr>reason = ''install'', previousVersion = None\<rparr>
     = Some (demoOld, [checkIfProtected, runtime_openOptionsPage])"
    by auto
  from onInstalled_reasons[OF demoStore_found, of demoLibs "[]"
      "\<lparr>reason = ''browser_update'', previousVersion = None\<rparr>"]
  have b: "installedListener demoLibs 5 demoStore [] \<lparr>reason = ''browser_update'', previousVersion = None\<rparr>
     = Some (demoOld, [checkIfProtected])"
    by auto
  have v: "convertVersionToNumber demoLibs (Some ''2.0.0'') = 200"
    "convertVersionToNumber demoLibs (Some ''3.4.0'') = 340"
    by (simp_all add: demoLibs_def)
  from onInstalled_reasons[OF demoStore_found, of demoLibs "[]"
      "\<lparr>reason = ''update'', previousVersion = Some ''2.0.0''\<rparr>"]
  have c: "RESET_COOKIE_DELETED_COUNTER \<in> set (dispatched (snd (the
        (installedListener demoLibs 5 demoStore []
           \<lparr>reason = ''update'', previousVersion = Some ''2.0.0''\<rparr>))))"
    by (auto simp: v)
  from onInstalled_reasons[OF demoStore_found, of demoLibs "[]"
      "\<lparr>reason = ''update'', previousVersion = Some ''3.4.0''\<rparr>"]
  have d: "RESET_COOKIE_DELETED_COUNTER \<notin> set (dispatched (snd (the
        (installedListener demoLibs 5 demoStore []
           \<lparr>reason = ''update'', previousVersion = Some ''3.4.0''\<rparr>))))"
    "hd (dispatched (snd (the
        (installedListener demoLibs 5 demoStore []
           \<lparr>reason = ''update'', previousVersion = Some ''3.4.0''\<rparr>)))) = validateSettings"
    by (auto simp: v)
  from a b c d show ?thesis by simp
qed

text \<open>
  Claim C4. On an update from a version with \<^verbatim>\<open>convertVersionToNumber\<close> below 350: the
  \<^verbatim>\<open>UPDATE_SETTING\<close> actions the listener dispatches are the one that sets
  \<^verbatim>\<open>localStorageCleanup\<close> to the value of \<^verbatim>\<open>settings.localstorageCleanup\<close>, when that setting
  exists (in the store as it is after \<^verbatim>\<open>validateSettings\<close>), and none otherwise; and the
  \<^verbatim>\<open>UPDATE_EXPRESSION\<close> actions it dispatches are, list by list and in order, one for each
  expression whose \<^verbatim>\<open>cleanLocalStorage\<close> is set and whose \<^verbatim>\<open>cleanSiteData\<close> is absent, with
  \<^verbatim>\<open>cleanSiteData\<close> set to \<^verbatim>\<open>[LocalStorage]\<close>. No other expression is updated.
\<close>

theorem onInstalled_migration:
  assumes "store k = Some st" and "\<forall>j<k. store j = None" and "k < fuel"
    and "reason details = ''update''"
    and "convertVersionToNumber L (previousVersion details) < 350"
  shows "\<exists>r. installedListener L fuel store cs details = Some r
    \<and> filter isUpdateSetting (dispatched (snd r)) =
        (case settings (afterValidate L st) ''localstorageCleanup'' of
           None \<Rightarrow> []
         | Some s \<Rightarrow> [UPDATE_SETTING ''localStorageCleanup'' (value s)])
    \<and> filter isUpdateExpression (dispatched (snd r)) =
        map (\<lambda>exp. UPDATE_EXPRESSION (exp\<lparr>cleanSiteData := Some [LOCALSTORAGE L]\<rparr>))
          (filter needsMigration (concat (map snd (lists' (afterSettingMigration L st)))))"
proof -
  note aw = awaitStore_finds[OF assms(1,2,3)]
  from installed_update_dispatched[OF aw assms(4), of L cs]
  obtain r ds where r: "installedListener L fuel store cs details = Some r"
    and ds: "list_all isAddExpression ds"
    and d: "dispatched (snd r) =
        [validateSettings]
        @ (if convertVersionToNumber L (previousVersion details) < 350 then
             (case settings (afterValidate L st) ''localstorageCleanup'' of
                None \<Rightarrow> []
              | Some s \<Rightarrow> [UPDATE_SETTING ''localStorageCleanup'' (value s)])
             @ map (\<lambda>exp. UPDATE_EXPRESSION (exp\<lparr>cleanSiteData := Some [LOCALSTORAGE L]\<rparr>))
                 (filter needsMigration (concat (map snd (lists' (afterSettingMigration L st)))))
             @ ds
           else [])
        @ (if convertVersionToNumber L (previousVersion details) < 300
           then [RESET_COOKIE_DELETED_COUNTER] else [])"
    by blast
  note nods = only_addExpressions[OF ds]
  have a: "filter isUpdateSetting (dispatched (snd r)) =
        (case settings (afterValidate L st) ''localstorageCleanup'' of
           None \<Rightarrow> []
         | Some s \<Rightarrow> [UPDATE_SETTING ''localStorageCleanup'' (value s)])"
    unfolding d using nods assms(5)
    by (simp add: isUpdateSetting_def split: option.splits)
  have b: "filter isUpdateExpression (dispatched (snd r)) =
        map (\<lambda>exp. UPDATE_EXPRESSION (exp\<lparr>cleanSiteData := Some [LOCALSTORAGE L]\<rparr>))
          (filter needsMigration (concat (map snd (lists' (afterSettingMigration L st)))))"
    unfolding d using nods assms(5)
    by (simp add: isUpdateExpression_def split: option.splits)
  from r a b show ?thesis by simp
qed

theorem onInstalled_migration_witness:
  "filter isUpdateSetting (dispatched (snd (the
        (installedListener demoLibs 5 demoStore []
           \<lparr>reason = ''update'', previousVersion = Some ''3.4.0''\<rparr>))))
     = [UPDATE_SETTING ''localStorageCleanup'' (VBool True)]
   \<and> filter isUpdateExpression (dispatched (snd (the
        (installedListener demoLibs 5 demoStore []
           \<lparr>reason = ''update'', previousVersion = Some ''3.4.0''\<rparr>))))
     = [UPDATE_EXPRESSION
          \<lparr>expression = ''*.example.com'', listType = ''WHITE'', storeId = ''default'',
           cleanLocalStorage = Some True, cleanSiteData = Some [''LocalStorage'']\<rparr>]"
proof -
  have v: "convertVersionToNumber demoLibs
      (previousVersion \<lparr>reason = ''update'', previousVersion = Some ''3.4.0''\<rparr>) < 350"
    by (simp add: demoLibs_def)
  have s: "settings (afterValidate demoLibs demoOld) ''localstorageCleanup''
      = Some \<lparr>settingName = ''localstorageCleanup'', value = VBool True\<rparr>"
    by (simp add: afterValidate_def demoLibs_def demoOld_def mkSettings_def)
  have l: "lists' (afterSettingMigration demoLibs demoOld) = [(''default'', demoExpressions)]"
    by (simp add: afterSettingMigration_def s) (simp add: afterValidate_def demoLibs_def demoOld_def)
  have m: "filter needsMigration demoExpressions =
      [\<lparr>expression = ''*.example.com'', listType = ''WHITE'', storeId = ''default'',
        cleanLocalStorage = Some True, cleanSiteData = None\<rparr>]"
    by (simp add: needsMigration_def demoExpressions_def)
  have ls: "LOCALSTORAGE demoLibs = ''LocalStorage''"
    by (simp add: demoLibs_def)
  from onInstalled_migration[OF demoStore_found _ v, of "[]"]
  show ?thesis
    by (auto simp: s l m ls)
qed

end
